theory Spec2Isabelle
  imports Main
begin

section \<open>JavaScript values and objects\<close>

text \<open>
  The values that travel through the authentication core: what a parsed JSON request
  body, a decoded token or a database row can hold. Numbers are the integers (the
  timestamps of the tokens are whole seconds); nested objects and arrays do not occur
  in the fields the core reads.
\<close>

datatype jsval = JUndefined | JNull | JBool bool | JNum int | JStr string

text \<open>An object is the list of its own properties, in insertion order.\<close>

type_synonym obj = "(string \<times> jsval) list"

definition js_get :: "obj \<Rightarrow> string \<Rightarrow> jsval" where
  \<comment> \<open>\<open>o[k]\<close>: a property that is not there reads as \<open>undefined\<close>\<close>
  "js_get ob k = (case map_of ob k of None \<Rightarrow> JUndefined | Some v \<Rightarrow> v)"

definition has_key :: "obj \<Rightarrow> string \<Rightarrow> bool" where
  \<comment> \<open>\<open>k\<close> is among \<open>Object.keys(o)\<close>\<close>
  "has_key ob k = (k \<in> set (map fst ob))"

fun js_set :: "obj \<Rightarrow> string \<Rightarrow> jsval \<Rightarrow> obj" where
  \<comment> \<open>\<open>o[k] = v\<close>: an existing property keeps its place, a new one goes last\<close>
  "js_set [] k v = [(k, v)]"
| "js_set ((k', v') # ob) k v = (if k' = k then (k, v) # ob else (k', v') # js_set ob k v)"

fun truthy :: "jsval \<Rightarrow> bool" where
  "truthy JUndefined = False"
| "truthy JNull = False"
| "truthy (JBool b) = b"
| "truthy (JNum n) = (n \<noteq> 0)"
| "truthy (JStr s) = (s \<noteq> [])"

fun is_number :: "jsval \<Rightarrow> bool" where
  "is_number (JNum n) = True"
| "is_number v = False"

definition json_roundtrip :: "obj \<Rightarrow> obj" where
  \<comment> \<open>\<open>JSON.parse(JSON.stringify(o))\<close>: properties whose value is \<open>undefined\<close> are dropped\<close>
  "json_roundtrip ob = filter (\<lambda>(k, v). v \<noteq> JUndefined) ob"

section \<open>Signed tokens (the jsonwebtoken library, symbolically)\<close>

text \<open>
  The library is not part of the repository; it is modelled symbolically. A signature
  is the pair of the key and the claims it was computed over, so that it verifies under
  exactly that key and for exactly those claims. The compact serialisation of a token is
  one opaque symbol of a header value: it contains no space and no semicolon.
\<close>

datatype mac = Mac string obj

datatype jwt = Jwt obj mac

datatype sym = Ch char | Tok jwt

type_synonym wire = "sym list"

definition plain :: "string \<Rightarrow> wire" where
  \<comment> \<open>an ordinary string as a header value\<close>
  "plain s = map Ch s"

datatype error =
    SecretMissing      \<comment> \<open>sign or verify called with an empty or undefined secret\<close>
  | InvalidPayload     \<comment> \<open>a registered claim of the payload is not a number\<close>
  | ExpAlreadySet      \<comment> \<open>\<open>expiresIn\<close> given for a payload that has an \<open>exp\<close> of its own\<close>
  | JwtMalformed
  | InvalidSignature
  | InvalidClaim       \<comment> \<open>\<open>nbf\<close> or \<open>exp\<close> of a verified token is not a number\<close>
  | JwtNotActive
  | JwtExpired
  | BcryptBadArgs      \<comment> \<open>bcrypt called with data that is not a string\<close>
  | NotDefined string  \<comment> \<open>the \<open>Error\<close> thrown while a module loads\<close>
  | DbError string

definition secret_ok :: "string option \<Rightarrow> bool" where
  "secret_ok s = (case s of None \<Rightarrow> False | Some k \<Rightarrow> k \<noteq> [])"

definition registered_ok :: "obj \<Rightarrow> string \<Rightarrow> bool" where
  \<comment> \<open>a registered claim, when the payload has the key, must be a number\<close>
  "registered_ok p k = (has_key p k \<longrightarrow> is_number (js_get p k))"

definition jwt_sign :: "obj \<Rightarrow> string option \<Rightarrow> int \<Rightarrow> int \<Rightarrow> error + wire" where
  \<comment> \<open>\<open>jwt.sign(payload, secret, { expiresIn })\<close> at the clock reading \<open>now\<close> (seconds)\<close>
  "jwt_sign payload secret expiresIn now =
     (case secret of
        None \<Rightarrow> Inl SecretMissing
      | Some k \<Rightarrow>
          if k = [] then Inl SecretMissing
          else if \<not> (registered_ok payload ''iat'' \<and> registered_ok payload ''exp''
                      \<and> registered_ok payload ''nbf'') then Inl InvalidPayload
          else if js_get payload ''exp'' \<noteq> JUndefined then Inl ExpAlreadySet
          else
            let timestamp = (case js_get payload ''iat'' of
                               JNum t \<Rightarrow> (if t \<noteq> 0 then t else now) | _ \<Rightarrow> now);
                p1 = js_set payload ''iat'' (JNum timestamp);
                p2 = js_set p1 ''exp'' (JNum (timestamp + expiresIn));
                claims = json_roundtrip p2
            in Inr [Tok (Jwt claims (Mac k claims))])"

definition jwt_verify :: "wire \<Rightarrow> string option \<Rightarrow> int \<Rightarrow> error + obj" where
  \<comment> \<open>\<open>jwt.verify(token, secret)\<close> at the clock reading \<open>now\<close>: the decoded claims, or the throw\<close>
  "jwt_verify token secret now =
     (case token of
        [Tok (Jwt claims sg)] \<Rightarrow>
          (case secret of
             None \<Rightarrow> Inl SecretMissing
           | Some k \<Rightarrow>
               if k = [] then Inl SecretMissing
               else if sg \<noteq> Mac k claims then Inl InvalidSignature
               else if js_get claims ''nbf'' \<noteq> JUndefined \<and> \<not> is_number (js_get claims ''nbf'')
                 then Inl InvalidClaim
               else if (case js_get claims ''nbf'' of JNum n \<Rightarrow> now < n | _ \<Rightarrow> False)
                 then Inl JwtNotActive
               else if js_get claims ''exp'' \<noteq> JUndefined \<and> \<not> is_number (js_get claims ''exp'')
                 then Inl InvalidClaim
               else if (case js_get claims ''exp'' of JNum x \<Rightarrow> x \<le> now | _ \<Rightarrow> False)
                 then Inl JwtExpired
               else Inr claims)
      | _ \<Rightarrow> Inl JwtMalformed)"

section \<open>Configuration and the token module (utils/token.ts)\<close>

record env =
  env_JWT_SECRET :: "string option"
  env_REFRESH_SECRET :: "string option"
  env_NODE_ENV :: "string option"

definition or_else :: "string option \<Rightarrow> string option \<Rightarrow> string option" where
  \<comment> \<open>\<open>a || b\<close> on values that are a string or \<open>undefined\<close>: the empty string is falsy too\<close>
  "or_else a b = (if secret_ok a then a else b)"

definition token_JWT_SECRET :: "env \<Rightarrow> string option" where
  "token_JWT_SECRET e = env_JWT_SECRET e"

definition token_REFRESH_SECRET :: "env \<Rightarrow> string option" where
  "token_REFRESH_SECRET e = or_else (env_REFRESH_SECRET e) (token_JWT_SECRET e)"

definition minutes15 :: int where
  "minutes15 = 15 * 60"

definition days7 :: int where
  "days7 = 7 * 24 * 60 * 60"

definition identity_obj :: "string \<Rightarrow> string \<Rightarrow> bool \<Rightarrow> obj" where
  \<comment> \<open>the object \<open>{ id, email, is_admin }\<close> of an identity\<close>
  "identity_obj i m a = [(''id'', JStr i), (''email'', JStr m), (''is_admin'', JBool a)]"

definition generateAccessToken :: "env \<Rightarrow> int \<Rightarrow> obj \<Rightarrow> error + wire" where
  "generateAccessToken e now usr = jwt_sign usr (token_JWT_SECRET e) minutes15 now"

definition generateRefreshToken :: "env \<Rightarrow> int \<Rightarrow> obj \<Rightarrow> error + wire" where
  "generateRefreshToken e now usr =
     jwt_sign [(''id'', js_get usr ''id'')] (token_REFRESH_SECRET e) days7 now"

definition verifyRefreshToken :: "env \<Rightarrow> int \<Rightarrow> wire \<Rightarrow> error + obj" where
  "verifyRefreshToken e now token = jwt_verify token (token_REFRESH_SECRET e) now"

section \<open>Loading the secrets when the process starts\<close>

text \<open>
  The middleware module and the controller module each read the secrets while they are
  loaded, and throw when one is missing. The route module imports the middleware first.
\<close>

record secrets =
  access_secret :: string
  refresh_secret :: string

definition middleware_load :: "env \<Rightarrow> error + string" where
  \<comment> \<open>middleware module: \<open>if (!JWT_SECRET) throw\<close>\<close>
  "middleware_load e =
     (case env_JWT_SECRET e of
        None \<Rightarrow> Inl (NotDefined ''JWT_SECRET is not defined'')
      | Some k \<Rightarrow> if k = [] then Inl (NotDefined ''JWT_SECRET is not defined'') else Inr k)"

definition controller_load :: "env \<Rightarrow> error + secrets" where
  \<comment> \<open>controller module: the same check, then the refresh secret with its fallback\<close>
  "controller_load e =
     (if \<not> secret_ok (env_JWT_SECRET e)
        then Inl (NotDefined ''JWT_SECRET is not defined in environment variables'')
      else
        case or_else (env_REFRESH_SECRET e) (env_JWT_SECRET e) of
          None \<Rightarrow> Inl (NotDefined ''REFRESH_SECRET is not defined in environment variables'')
        | Some r \<Rightarrow>
            if r = [] then Inl (NotDefined ''REFRESH_SECRET is not defined in environment variables'')
            else (case env_JWT_SECRET e of
                    None \<Rightarrow> Inl (NotDefined ''JWT_SECRET is not defined in environment variables'')
                  | Some k \<Rightarrow> Inr \<lparr>access_secret = k, refresh_secret = r\<rparr>))"

definition startup :: "env \<Rightarrow> error + secrets" where
  "startup e =
     (case middleware_load e of
        Inl err \<Rightarrow> Inl err
      | Inr _ \<Rightarrow> controller_load e)"

section \<open>Requests, responses and the middleware chain\<close>

datatype bval = BStr string | BWire wire | BObj obj | BErr error

datatype body =
    Fields "(string \<times> bval) list"  \<comment> \<open>\<open>res.json({ ... })\<close>\<close>
  | Row obj                           \<comment> \<open>\<open>res.json(data)\<close>, one row\<close>
  | Rows "obj list"                   \<comment> \<open>\<open>res.json(users)\<close>\<close>
  | NotFoundPage                      \<comment> \<open>the framework's answer when no route matches\<close>

record cookie =
  ck_name :: string
  ck_value :: wire
  ck_httpOnly :: bool
  ck_secure :: bool
  ck_sameSite :: string
  ck_maxAge :: "int option"
  ck_expires :: "int option"
  ck_path :: string

record response =
  res_status :: nat
  res_body :: body
  res_set_cookie :: "cookie option"

record request =
  req_authorization :: "wire option"  \<comment> \<open>\<open>req.headers.authorization\<close>\<close>
  req_cookie :: "wire option"         \<comment> \<open>\<open>req.headers.cookie\<close>\<close>
  req_params :: "(string \<times> string) list"
  req_body :: obj
  req_user :: "obj option"

datatype outcome = Respond response | Next request

definition json_message :: "nat \<Rightarrow> string \<Rightarrow> response" where
  \<comment> \<open>\<open>res.status(code).json({ message })\<close>\<close>
  "json_message code msg =
     \<lparr>res_status = code, res_body = Fields [(''message'', BStr msg)], res_set_cookie = None\<rparr>"

definition json_error :: "nat \<Rightarrow> string \<Rightarrow> bval \<Rightarrow> response" where
  \<comment> \<open>\<open>res.status(code).json({ message, error })\<close>\<close>
  "json_error code msg err =
     \<lparr>res_status = code, res_body = Fields [(''message'', BStr msg), (''error'', err)],
      res_set_cookie = None\<rparr>"

definition param :: "request \<Rightarrow> string \<Rightarrow> jsval" where
  \<comment> \<open>\<open>req.params[name]\<close>\<close>
  "param req name = (case map_of (req_params req) name of None \<Rightarrow> JUndefined | Some s \<Rightarrow> JStr s)"

fun split_on :: "'a \<Rightarrow> 'a list \<Rightarrow> 'a list list" where
  \<comment> \<open>\<open>s.split(c)\<close>\<close>
  "split_on c [] = [[]]"
| "split_on c (x # xs) =
     (if x = c then [] # split_on c xs
      else (case split_on c xs of [] \<Rightarrow> [[x]] | ys # yss \<Rightarrow> (x # ys) # yss))"

definition second :: "'a list \<Rightarrow> 'a option" where
  \<comment> \<open>\<open>xs[1]\<close>, where \<open>None\<close> is \<open>undefined\<close>\<close>
  "second xs = (case xs of _ # y # _ \<Rightarrow> Some y | _ \<Rightarrow> None)"

definition middleware_JWT_SECRET :: "env \<Rightarrow> string option" where
  "middleware_JWT_SECRET e = env_JWT_SECRET e"

definition authenticate :: "env \<Rightarrow> int \<Rightarrow> request \<Rightarrow> outcome" where
  "authenticate e now req =
     (case req_authorization req of
        None \<Rightarrow> Respond (json_message 401 ''Unauthorized'')
      | Some authHeader \<Rightarrow>
          if authHeader = [] then Respond (json_message 401 ''Unauthorized'')
          else
            (case second (split_on (Ch CHR '' '') authHeader) of
               None \<Rightarrow> Respond (json_message 401 ''Unauthorized'')
             | Some token \<Rightarrow>
                 if token = [] then Respond (json_message 401 ''Unauthorized'')
                 else
                   (case jwt_verify token (middleware_JWT_SECRET e) now of
                      Inl err \<Rightarrow> Respond (json_message 403 ''Invalid token'')
                    | Inr decoded \<Rightarrow> Next (req\<lparr>req_user := Some decoded\<rparr>))))"

definition requireAdmin :: "request \<Rightarrow> outcome" where
  "requireAdmin req =
     (if \<not> (case req_user req of None \<Rightarrow> False | Some u \<Rightarrow> truthy (js_get u ''is_admin''))
        then Respond (json_message 403 ''Admin privileges required'')
      else Next req)"

definition requireOwnerOrAdmin :: "string \<Rightarrow> request \<Rightarrow> outcome" where
  "requireOwnerOrAdmin paramName req =
     (let targetId = param req paramName in
      case req_user req of
        None \<Rightarrow> Respond (json_message 401 ''Unauthorized'')
      | Some authUser \<Rightarrow>
          if js_get authUser ''id'' \<noteq> targetId \<and> \<not> truthy (js_get authUser ''is_admin'')
            then Respond (json_message 403 ''Access denied'')
          else Next req)"

section \<open>The users table and the outside world\<close>

text \<open>
  The hosted database is an external collaborator. It is modelled as the list of the
  rows of the \<open>users\<close> table, with the columns the program reads and writes. A filter
  \<open>.eq(column, value)\<close> is sent as text, so a row matches when the text of its cell is the
  text of the value. A query that asks for a \<open>.single()\<close> row answers with an error unless
  exactly one row qualifies, and a write that asked for a single row is undone with it.

  Modelled from the spec: the type \<open>User\<close> (types/User) is not among the sources. A row has
  the fields of the spec's Identity (id, email, is_admin and the password hash, which the
  code stores in the column \<open>password\<close>) and the column \<open>created_at\<close> that the handlers
  select.
\<close>

record user_row =
  row_id :: string
  row_email :: string
  row_password :: string
  row_is_admin :: bool
  row_created_at :: string

type_synonym store = "user_row list"

definition row_obj :: "user_row \<Rightarrow> obj" where
  \<comment> \<open>the row as the client library returns it for \<open>select("*")\<close>\<close>
  "row_obj r =
     [(''id'', JStr (row_id r)), (''email'', JStr (row_email r)),
      (''password'', JStr (row_password r)), (''is_admin'', JBool (row_is_admin r)),
      (''created_at'', JStr (row_created_at r))]"

definition pick :: "string list \<Rightarrow> obj \<Rightarrow> obj" where
  \<comment> \<open>\<open>select("c1, c2, ...")\<close>\<close>
  "pick cols ob = map (\<lambda>c. (c, js_get ob c)) cols"

definition digit :: "nat \<Rightarrow> char" where
  "digit d = ''0123456789'' ! d"

fun show_nat :: "nat \<Rightarrow> string" where
  "show_nat n = (if n < 10 then [digit n] else show_nat (n div 10) @ [digit (n mod 10)])"

declare show_nat.simps [simp del]

definition show_int :: "int \<Rightarrow> string" where
  "show_int i = (if i < 0 then CHR ''-'' # show_nat (nat (- i)) else show_nat (nat i))"

fun js_String :: "jsval \<Rightarrow> string" where
  \<comment> \<open>\<open>String(v)\<close>, as a template literal renders a value\<close>
  "js_String JUndefined = ''undefined''"
| "js_String JNull = ''null''"
| "js_String (JBool b) = (if b then ''true'' else ''false'')"
| "js_String (JNum n) = show_int n"
| "js_String (JStr s) = s"

definition eq_filter :: "string \<Rightarrow> jsval \<Rightarrow> user_row \<Rightarrow> bool" where
  "eq_filter col v r = (js_String (js_get (row_obj r) col) = js_String v)"

text \<open>
  What a handler takes from outside itself during one request: the clock (in seconds),
  a failure of the database, the id and the creation time the database gives to a new
  row, the password hashing service and the decision of the rate limiter.
\<close>

record world =
  clock :: int
  db_fault :: "string option"
  db_new_id :: string
  db_new_created_at :: string
  bcrypt_hash :: "string \<Rightarrow> string"
  bcrypt_compare :: "string \<Rightarrow> string \<Rightarrow> bool"
  rate_limited :: bool

text \<open>A database answer \<open>{ data, error }\<close>: \<open>Inl\<close> the error message, \<open>Inr\<close> the data.\<close>

definition single :: "user_row list \<Rightarrow> string + user_row" where
  "single rs =
     (case rs of
        [r] \<Rightarrow> Inr r
      | _ \<Rightarrow> Inl ''JSON object requested, multiple (or no) rows returned'')"

definition select_single :: "world \<Rightarrow> store \<Rightarrow> string \<Rightarrow> jsval \<Rightarrow> string + user_row" where
  \<comment> \<open>\<open>from("users").select("*").eq(col, v).single()\<close>\<close>
  "select_single w st col v =
     (case db_fault w of
        Some msg \<Rightarrow> Inl msg
      | None \<Rightarrow> single (filter (eq_filter col v) st))"

definition select_all :: "world \<Rightarrow> store \<Rightarrow> string + user_row list" where
  "select_all w st = (case db_fault w of Some msg \<Rightarrow> Inl msg | None \<Rightarrow> Inr st)"

definition new_row :: "world \<Rightarrow> string \<Rightarrow> string \<Rightarrow> bool \<Rightarrow> user_row" where
  \<comment> \<open>the row the database stores: it supplies the id and the creation time\<close>
  "new_row w em hashed adm =
     \<lparr>row_id = db_new_id w, row_email = em, row_password = hashed, row_is_admin = adm,
      row_created_at = db_new_created_at w\<rparr>"

definition insert_user :: "world \<Rightarrow> store \<Rightarrow> obj \<Rightarrow> (string + user_row) \<times> store" where
  \<comment> \<open>\<open>from("users").insert(newUser).select().single()\<close>\<close>
  "insert_user w st newUser =
     (case db_fault w of
        Some msg \<Rightarrow> (Inl msg, st)
      | None \<Rightarrow>
          let r = new_row w (js_String (js_get newUser ''email''))
                    (js_String (js_get newUser ''password''))
                    (js_get newUser ''is_admin'' = JBool True)
          in (Inr r, st @ [r]))"

definition delete_single :: "world \<Rightarrow> store \<Rightarrow> string \<Rightarrow> jsval \<Rightarrow> (string + user_row) \<times> store" where
  \<comment> \<open>\<open>from("users").delete().eq(col, v).select().single()\<close>\<close>
  "delete_single w st col v =
     (case db_fault w of
        Some msg \<Rightarrow> (Inl msg, st)
      | None \<Rightarrow>
          (case single (filter (eq_filter col v) st) of
             Inl msg \<Rightarrow> (Inl msg, st)
           | Inr r \<Rightarrow> (Inr r, filter (\<lambda>x. \<not> eq_filter col v x) st)))"

text \<open>
  The password hashing library is external: hashing and comparing are taken from the
  outside world, and both reject data that is not a string by throwing.
\<close>

definition hash_password :: "world \<Rightarrow> jsval \<Rightarrow> error + string" where
  \<comment> \<open>\<open>bcrypt.hash(password, 10)\<close>\<close>
  "hash_password w password =
     (case password of JStr s \<Rightarrow> Inr (bcrypt_hash w s) | _ \<Rightarrow> Inl BcryptBadArgs)"

definition compare_password :: "world \<Rightarrow> jsval \<Rightarrow> string \<Rightarrow> error + bool" where
  \<comment> \<open>\<open>bcrypt.compare(password, hash)\<close>\<close>
  "compare_password w password hashed =
     (case password of JStr s \<Rightarrow> Inr (bcrypt_compare w s hashed) | _ \<Rightarrow> Inl BcryptBadArgs)"

section \<open>The cookie that carries the refresh token\<close>

definition refresh_cookie :: "env \<Rightarrow> wire \<Rightarrow> cookie" where
  "refresh_cookie e token =
     \<lparr>ck_name = ''refreshToken'', ck_value = token, ck_httpOnly = True,
      ck_secure = (env_NODE_ENV e = Some ''production''), ck_sameSite = ''strict'',
      ck_maxAge = Some (7 * 24 * 60 * 60), ck_expires = None, ck_path = ''/''\<rparr>"

definition cleared_cookie :: "env \<Rightarrow> cookie" where
  "cleared_cookie e =
     \<lparr>ck_name = ''refreshToken'', ck_value = [], ck_httpOnly = True,
      ck_secure = (env_NODE_ENV e = Some ''production''), ck_sameSite = ''strict'',
      ck_maxAge = None, ck_expires = Some 0, ck_path = ''/''\<rparr>"

text \<open>
  \<open>cookie.parse\<close> of the cookie library: the pairs are separated by semicolons, a pair
  without \<open>=\<close> is skipped, name and value are trimmed, a value that starts with a double
  quote loses its first and last character, and the first pair of a name wins. The
  percent-decoding of the values is left out: it does not touch a token.
\<close>

definition is_space :: "sym \<Rightarrow> bool" where
  "is_space x = (x = Ch CHR '' '' \<or> x = Ch (CHR 0x09))"

definition trim :: "wire \<Rightarrow> wire" where
  "trim xs = rev (dropWhile is_space (rev (dropWhile is_space xs)))"

definition unquote :: "wire \<Rightarrow> wire" where
  "unquote v = (case v of x # rest \<Rightarrow> (if x = Ch (CHR 0x22) then butlast rest else v) | [] \<Rightarrow> v)"

definition cookie_pair :: "wire \<Rightarrow> (wire \<times> wire) option" where
  "cookie_pair p =
     (if Ch CHR ''='' \<notin> set p then None
      else Some (trim (takeWhile (\<lambda>x. x \<noteq> Ch CHR ''='') p),
                 unquote (trim (drop 1 (dropWhile (\<lambda>x. x \<noteq> Ch CHR ''='') p)))))"

definition cookie_parse :: "wire \<Rightarrow> (wire \<times> wire) list" where
  "cookie_parse str = List.map_filter cookie_pair (split_on (Ch CHR '';'') str)"

definition cookie_get :: "(wire \<times> wire) list \<Rightarrow> string \<Rightarrow> wire option" where
  \<comment> \<open>\<open>cookies[name]\<close>\<close>
  "cookie_get cs name = map_of cs (plain name)"

section \<open>The handlers of the authentication controller\<close>

text \<open>
  A handler takes the configuration, the outside world, the table and the request, and
  returns the response it sends with the table it leaves. An exception inside its
  \<open>try\<close> block is the \<open>Inl\<close> of a step, answered by its \<open>catch\<close> block.
\<close>

definition internal_error :: "error \<Rightarrow> response" where
  "internal_error err = json_error 500 ''Internal server error'' (BErr err)"

definition register :: "env \<Rightarrow> world \<Rightarrow> store \<Rightarrow> request \<Rightarrow> response \<times> store" where
  "register e w st req =
     (let email = js_get (req_body req) ''email'';
          password = js_get (req_body req) ''password'';
          is_admin = js_get (req_body req) ''is_admin''
      in
      if \<not> truthy email \<or> \<not> truthy password
        then (json_message 400 ''Email and password are required'', st)
      else
        (case select_single w st ''email'' email of
           Inr existingUser \<Rightarrow> (json_message 409 ''User already exists'', st)
         | Inl _ \<Rightarrow>
             (case hash_password w password of
                Inl err \<Rightarrow> (internal_error err, st)
              | Inr hashedPassword \<Rightarrow>
                  (let newUser =
                         [(''email'', email), (''password'', JStr hashedPassword),
                          (''is_admin'', (case is_admin of JBool b \<Rightarrow> JBool b | _ \<Rightarrow> JBool False))]
                   in
                   case insert_user w st newUser of
                     (Inl msg, st1) \<Rightarrow> (json_error 500 ''Error creating user'' (BStr msg), st1)
                   | (Inr data, st1) \<Rightarrow>
                       (case generateAccessToken e (clock w) (row_obj data) of
                          Inl err \<Rightarrow> (internal_error err, st1)
                        | Inr accessToken \<Rightarrow>
                            (case generateRefreshToken e (clock w) [(''id'', JStr (row_id data))] of
                               Inl err \<Rightarrow> (internal_error err, st1)
                             | Inr refreshToken \<Rightarrow>
                                 (\<lparr>res_status = 201,
                                   res_body = Fields [(''message'', BStr ''User created successfully''),
                                                      (''accessToken'', BWire accessToken)],
                                   res_set_cookie = Some (refresh_cookie e refreshToken)\<rparr>,
                                  st1)))))))"

definition login :: "env \<Rightarrow> world \<Rightarrow> store \<Rightarrow> request \<Rightarrow> response \<times> store" where
  "login e w st req =
     (let email = js_get (req_body req) ''email'';
          password = js_get (req_body req) ''password''
      in
      if \<not> truthy email \<or> \<not> truthy password
        then (json_message 400 ''Email and password are required'', st)
      else
        (case select_single w st ''email'' email of
           Inl _ \<Rightarrow> (json_message 401 ''Invalid email or password'', st)
         | Inr usr \<Rightarrow>
             (case compare_password w password (row_password usr) of
                Inl err \<Rightarrow> (internal_error err, st)
              | Inr isPasswordValid \<Rightarrow>
                  if \<not> isPasswordValid
                    then (json_message 401 ''Invalid email or password'', st)
                  else
                    (let ident = identity_obj (row_id usr) (row_email usr) (row_is_admin usr)
                     in
                     case generateAccessToken e (clock w) ident of
                       Inl err \<Rightarrow> (internal_error err, st)
                     | Inr accessToken \<Rightarrow>
                         (case generateRefreshToken e (clock w) [(''id'', JStr (row_id usr))] of
                            Inl err \<Rightarrow> (internal_error err, st)
                          | Inr refreshToken \<Rightarrow>
                              (\<lparr>res_status = 200,
                                res_body = Fields [(''message'', BStr ''Login successful''),
                                                   (''accessToken'', BWire accessToken),
                                                   (''user'', BObj ident)],
                                res_set_cookie = Some (refresh_cookie e refreshToken)\<rparr>,
                               st))))))"

definition deleteUser :: "env \<Rightarrow> world \<Rightarrow> store \<Rightarrow> request \<Rightarrow> response \<times> store" where
  "deleteUser e w st req =
     (let userId = param req ''id'' in
      case delete_single w st ''id'' userId of
        (Inl msg, st1) \<Rightarrow> (json_error 500 ''Error deleting user'' (BStr msg), st1)
      | (Inr data, st1) \<Rightarrow>
          (\<lparr>res_status = 200,
            res_body = Fields [(''message'', BStr ''User deleted successfully''),
                               (''user'', BObj (row_obj data))],
            res_set_cookie = None\<rparr>, st1))"

definition logout :: "env \<Rightarrow> world \<Rightarrow> store \<Rightarrow> request \<Rightarrow> response \<times> store" where
  "logout e w st req =
     (\<lparr>res_status = 200, res_body = Fields [(''message'', BStr ''Logged out successfully'')],
       res_set_cookie = Some (cleared_cookie e)\<rparr>, st)"

definition refreshToken :: "env \<Rightarrow> world \<Rightarrow> store \<Rightarrow> request \<Rightarrow> response \<times> store" where
  "refreshToken e w st req =
     (let cookies = cookie_parse (case req_cookie req of None \<Rightarrow> [] | Some c \<Rightarrow> c) in
      case cookie_get cookies ''refreshToken'' of
        None \<Rightarrow> (json_message 401 ''No refresh token provided'', st)
      | Some token \<Rightarrow>
          if token = [] then (json_message 401 ''No refresh token provided'', st)
          else
            (case verifyRefreshToken e (clock w) token of
               Inl err \<Rightarrow> (json_error 403 ''Invalid refresh token'' (BErr err), st)
             | Inr payload \<Rightarrow>
                 (case select_single w st ''id'' (js_get payload ''id'') of
                    Inl _ \<Rightarrow> (json_message 401 ''Invalid refresh token'', st)
                  | Inr usr \<Rightarrow>
                      (case generateAccessToken e (clock w) (row_obj usr) of
                         Inl err \<Rightarrow> (json_error 403 ''Invalid refresh token'' (BErr err), st)
                       | Inr accessToken \<Rightarrow>
                           (\<lparr>res_status = 200,
                             res_body = Fields [(''accessToken'', BWire accessToken)],
                             res_set_cookie = None\<rparr>, st)))))"

definition public_columns :: "string list" where
  "public_columns = [''id'', ''email'', ''is_admin'', ''created_at'']"

definition getUsers :: "env \<Rightarrow> world \<Rightarrow> store \<Rightarrow> request \<Rightarrow> response \<times> store" where
  "getUsers e w st req =
     (case select_all w st of
        Inl msg \<Rightarrow> (json_error 500 ''Error fetching users'' (BStr msg), st)
      | Inr users \<Rightarrow>
          (\<lparr>res_status = 200, res_body = Rows (map (\<lambda>r. pick public_columns (row_obj r)) users),
            res_set_cookie = None\<rparr>, st))"

definition getUser :: "env \<Rightarrow> world \<Rightarrow> store \<Rightarrow> request \<Rightarrow> response \<times> store" where
  "getUser e w st req =
     (let userId = param req ''userId'' in
      case select_single w st ''id'' userId of
        Inl _ \<Rightarrow> (json_message 404 ''User not found'', st)
      | Inr data \<Rightarrow>
          (\<lparr>res_status = 200, res_body = Row (pick public_columns (row_obj data)),
            res_set_cookie = None\<rparr>, st))"

definition deleteCurrentUser :: "env \<Rightarrow> world \<Rightarrow> store \<Rightarrow> request \<Rightarrow> response \<times> store" where
  "deleteCurrentUser e w st req =
     (if \<not> (case req_user req of None \<Rightarrow> False | Some u \<Rightarrow> truthy (js_get u ''id''))
        then (json_message 401 ''Unauthorized'', st)
      else
        (case delete_single w st ''id'' (case req_user req of None \<Rightarrow> JUndefined
                                                             | Some u \<Rightarrow> js_get u ''id'') of
           (Inl msg, st1) \<Rightarrow> (json_error 500 ''Error deleting user'' (BStr msg), st1)
         | (Inr data, st1) \<Rightarrow>
             (\<lparr>res_status = 200,
               res_body = Fields [(''message'', BStr ''User deleted successfully''),
                                  (''user'', BObj (row_obj data))],
               res_set_cookie = None\<rparr>, st1)))"

section \<open>The routes of the authentication router (routes/authRoute.ts)\<close>

datatype http_method = GET | POST | PUT | DELETE | OTHER

definition too_many :: response where
  \<comment> \<open>the answer of the rate limiter of the authentication endpoints\<close>
  "too_many =
     json_message 429 ''Too many attempts from this IP, please try again after 10 minutes.''"

definition not_found :: response where
  "not_found = \<lparr>res_status = 404, res_body = NotFoundPage, res_set_cookie = None\<rparr>"

definition user_param :: "string list \<Rightarrow> string option" where
  \<comment> \<open>the path \<open>/user/:userId\<close>: the value bound to \<open>userId\<close>, when the path matches\<close>
  "user_param path =
     (case path of
        [a, u] \<Rightarrow> (if a = ''user'' \<and> u \<noteq> [] then Some u else None)
      | _ \<Rightarrow> None)"

definition guarded ::
  "outcome \<Rightarrow> (request \<Rightarrow> response \<times> store) \<Rightarrow> store \<Rightarrow> response \<times> store" where
  \<comment> \<open>a middleware in front of a handler: the handler runs only when the middleware calls \<open>next\<close>\<close>
  "guarded oc handler st = (case oc of Respond r \<Rightarrow> (r, st) | Next req \<Rightarrow> handler req)"

definition protected_routes ::
  "env \<Rightarrow> world \<Rightarrow> store \<Rightarrow> http_method \<Rightarrow> string list \<Rightarrow> request \<Rightarrow> response \<times> store" where
  \<comment> \<open>the routes registered after \<open>router.use(authenticate)\<close>; a path \<open>/user/:userId\<close>
      has two segments and matches none of the other routes, which have one\<close>
  "protected_routes e w st m path req =
     (case user_param path of
        Some u \<Rightarrow>
          (let req1 = req\<lparr>req_params := [(''userId'', u)]\<rparr> in
           if m = GET then guarded (requireOwnerOrAdmin ''userId'' req1) (getUser e w st) st
           else if m = DELETE then guarded (requireAdmin req1) (deleteUser e w st) st
           else (not_found, st))
      | None \<Rightarrow>
          (let req0 = req\<lparr>req_params := []\<rparr> in
           if m = GET \<and> path = [''refresh-token''] then refreshToken e w st req0
           else if m = GET \<and> path = [''users''] then guarded (requireAdmin req0) (getUsers e w st) st
           else if m = DELETE \<and> path = [''user''] then deleteCurrentUser e w st req0
           else if m = POST \<and> path = [''logout''] then logout e w st req0
           else (not_found, st)))"

definition authRouter ::
  "env \<Rightarrow> world \<Rightarrow> store \<Rightarrow> http_method \<Rightarrow> string list \<Rightarrow> request \<Rightarrow> response \<times> store" where
  "authRouter e w st m path req =
     (if m = POST \<and> path = [''register''] then
        (if rate_limited w then (too_many, st) else register e w st (req\<lparr>req_params := []\<rparr>))
      else if m = POST \<and> path = [''login''] then
        (if rate_limited w then (too_many, st) else login e w st (req\<lparr>req_params := []\<rparr>))
      else guarded (authenticate e (clock w) req) (protected_routes e w st m path) st)"

section \<open>Vocabulary of the statements\<close>

definition stamped :: "obj \<Rightarrow> int \<Rightarrow> int \<Rightarrow> obj" where
  \<comment> \<open>a payload with the issue time and the expiry that signing adds\<close>
  "stamped p now d = p @ [(''iat'', JNum now), (''exp'', JNum (now + d))]"

definition signed :: "string \<Rightarrow> obj \<Rightarrow> wire" where
  \<comment> \<open>the token with these claims, signed under this key\<close>
  "signed k c = [Tok (Jwt c (Mac k c))]"

definition bearer :: "wire \<Rightarrow> wire" where
  \<comment> \<open>the header value \<open>Bearer <token>\<close>\<close>
  "bearer t = plain ''Bearer '' @ t"

definition is_public :: "http_method \<Rightarrow> string list \<Rightarrow> bool" where
  \<comment> \<open>the two routes registered before \<open>router.use(authenticate)\<close>\<close>
  "is_public m path = (m = POST \<and> (path = [''register''] \<or> path = [''login'']))"

subsection \<open>Sample inputs\<close>

definition sample_env :: env where
  "sample_env = \<lparr>env_JWT_SECRET = Some ''s3cret'', env_REFRESH_SECRET = None, env_NODE_ENV = None\<rparr>"

definition sample_env2 :: env where
  "sample_env2 = \<lparr>env_JWT_SECRET = Some ''s3cret'', env_REFRESH_SECRET = Some ''r3fresh'',
                   env_NODE_ENV = None\<rparr>"

definition sample_world :: world where
  "sample_world =
     \<lparr>clock = 1000, db_fault = None, db_new_id = ''u2'', db_new_created_at = ''2025-06-01'',
      bcrypt_hash = (\<lambda>s. ''#'' @ s), bcrypt_compare = (\<lambda>s h. h = ''#'' @ s),
      rate_limited = False\<rparr>"

definition sample_request :: request where
  "sample_request =
     \<lparr>req_authorization = None, req_cookie = None, req_params = [], req_body = [],
      req_user = None\<rparr>"

definition sample_store :: store where
  "sample_store =
     [\<lparr>row_id = ''u1'', row_email = ''a@x.com'', row_password = ''#secret'', row_is_admin = False,
       row_created_at = ''2025-01-01''\<rparr>]"

definition sample_user :: user_row where
  "sample_user =
     \<lparr>row_id = ''u1'', row_email = ''a@x.com'', row_password = ''#secret'', row_is_admin = False,
      row_created_at = ''2025-01-01''\<rparr>"

definition admin_request :: request where
  \<comment> \<open>a request that carries a valid access token of an admin\<close>
  "admin_request =
     sample_request\<lparr>req_authorization :=
        Some (bearer (signed ''s3cret'' (stamped (identity_obj ''u0'' ''root@x.com'' True) 900 minutes15)))\<rparr>"

definition credentials :: "string \<Rightarrow> string \<Rightarrow> obj" where
  \<comment> \<open>a request body \<open>{ email, password }\<close>\<close>
  "credentials m pw = [(''email'', JStr m), (''password'', JStr pw)]"

section \<open>Signing and verifying\<close>

lemma split_on_none: "c \<notin> set xs \<Longrightarrow> split_on c xs = [xs]"
  by (induction xs) auto

lemma bearer_second:
  "Ch CHR '' '' \<notin> set t \<Longrightarrow> second (split_on (Ch CHR '' '') (bearer t)) = Some t"
  by (simp add: bearer_def plain_def second_def split_on_none)

lemma bearer_not_empty: "bearer t \<noteq> []"
  by (simp add: bearer_def plain_def)

lemma sign_identity:
  "k \<noteq> [] \<Longrightarrow> jwt_sign (identity_obj i m a) (Some k) d now =
     Inr (signed k (stamped (identity_obj i m a) now d))"
  by (simp add: jwt_sign_def identity_obj_def registered_ok_def has_key_def js_get_def
      json_roundtrip_def stamped_def signed_def Let_def)

lemma sign_row:
  "k \<noteq> [] \<Longrightarrow> jwt_sign (row_obj r) (Some k) d now = Inr (signed k (stamped (row_obj r) now d))"
  by (simp add: jwt_sign_def row_obj_def registered_ok_def has_key_def js_get_def
      json_roundtrip_def stamped_def signed_def Let_def)

lemma sign_id:
  "k \<noteq> [] \<Longrightarrow> jwt_sign [(''id'', JStr i)] (Some k) d now =
     Inr (signed k (stamped [(''id'', JStr i)] now d))"
  by (simp add: jwt_sign_def registered_ok_def has_key_def js_get_def
      json_roundtrip_def stamped_def signed_def Let_def)

lemma verify_own:
  assumes "k \<noteq> []" and "js_get c ''nbf'' = JUndefined" and "js_get c ''exp'' = JNum x"
    and "now < x"
  shows "jwt_verify (signed k c) (Some k) now = Inr c"
  using assms by (simp add: jwt_verify_def signed_def)

lemma verify_wrong_key:
  "s \<noteq> Some k' \<Longrightarrow> \<exists>err. jwt_verify [Tok (Jwt c (Mac k' c'))] s now = Inl err"
  by (cases s) (auto simp add: jwt_verify_def)

lemma verify_tampered:
  "c' \<noteq> c \<Longrightarrow> \<exists>err. jwt_verify [Tok (Jwt c' (Mac k' c))] s now = Inl err"
  by (cases s) (auto simp add: jwt_verify_def)

lemma verify_expired:
  "js_get c ''exp'' = JNum x \<Longrightarrow> x \<le> now \<Longrightarrow> \<exists>err. jwt_verify [Tok (Jwt c sg)] s now = Inl err"
  by (cases s) (auto simp add: jwt_verify_def)

lemma identity_stamped_fields:
  "js_get (stamped (identity_obj i m a) now d) ''id'' = JStr i"
  "js_get (stamped (identity_obj i m a) now d) ''email'' = JStr m"
  "js_get (stamped (identity_obj i m a) now d) ''is_admin'' = JBool a"
  "js_get (stamped (identity_obj i m a) now d) ''exp'' = JNum (now + d)"
  "js_get (stamped (identity_obj i m a) now d) ''nbf'' = JUndefined"
  by (simp_all add: stamped_def identity_obj_def js_get_def)

lemma row_stamped_fields:
  "js_get (stamped (row_obj r) now d) ''id'' = JStr (row_id r)"
  "js_get (stamped (row_obj r) now d) ''email'' = JStr (row_email r)"
  "js_get (stamped (row_obj r) now d) ''password'' = JStr (row_password r)"
  "js_get (stamped (row_obj r) now d) ''is_admin'' = JBool (row_is_admin r)"
  "js_get (stamped (row_obj r) now d) ''exp'' = JNum (now + d)"
  "js_get (stamped (row_obj r) now d) ''nbf'' = JUndefined"
  by (simp_all add: stamped_def row_obj_def js_get_def)

lemma id_stamped_fields:
  "js_get (stamped [(''id'', JStr i)] now d) ''id'' = JStr i"
  "js_get (stamped [(''id'', JStr i)] now d) ''is_admin'' = JUndefined"
  "js_get (stamped [(''id'', JStr i)] now d) ''exp'' = JNum (now + d)"
  "js_get (stamped [(''id'', JStr i)] now d) ''nbf'' = JUndefined"
  by (simp_all add: stamped_def js_get_def)

text \<open>
  Claim C8. An access token issued for an identity \<open>{id, email, is_admin}\<close> verifies
  under the same access secret at every instant before its expiry, and the claims that
  come back carry the same id, email and is_admin; the authentication gate lets a request
  through that presents it and attaches those claims.
\<close>

theorem access_token_roundtrip:
  assumes "env_JWT_SECRET e = Some k" and "k \<noteq> []" and "now' < now + minutes15"
  shows "generateAccessToken e now (identity_obj i m a)
           = Inr (signed k (stamped (identity_obj i m a) now minutes15))
       \<and> jwt_verify (signed k (stamped (identity_obj i m a) now minutes15))
            (middleware_JWT_SECRET e) now' = Inr (stamped (identity_obj i m a) now minutes15)
       \<and> js_get (stamped (identity_obj i m a) now minutes15) ''id'' = JStr i
       \<and> js_get (stamped (identity_obj i m a) now minutes15) ''email'' = JStr m
       \<and> js_get (stamped (identity_obj i m a) now minutes15) ''is_admin'' = JBool a
       \<and> authenticate e now'
            (req\<lparr>req_authorization :=
                   Some (bearer (signed k (stamped (identity_obj i m a) now minutes15)))\<rparr>)
           = Next (req\<lparr>req_authorization :=
                          Some (bearer (signed k (stamped (identity_obj i m a) now minutes15))),
                        req_user := Some (stamped (identity_obj i m a) now minutes15)\<rparr>)"
proof -
  let ?c = "stamped (identity_obj i m a) now minutes15"
  have g: "generateAccessToken e now (identity_obj i m a) = Inr (signed k ?c)"
    using assms(1,2) by (simp add: generateAccessToken_def token_JWT_SECRET_def sign_identity)
  have v: "jwt_verify (signed k ?c) (middleware_JWT_SECRET e) now' = Inr ?c"
    using assms
    by (simp add: middleware_JWT_SECRET_def verify_own [where x = "now + minutes15"]
        identity_stamped_fields)
  have f: "js_get ?c ''id'' = JStr i" "js_get ?c ''email'' = JStr m"
    "js_get ?c ''is_admin'' = JBool a"
    by (simp_all add: identity_stamped_fields)
  have s: "second (split_on (Ch CHR '' '') (bearer (signed k ?c))) = Some (signed k ?c)"
    by (rule bearer_second) (simp add: signed_def)
  have ne: "signed k ?c \<noteq> []"
    by (simp add: signed_def)
  have au: "authenticate e now' (req\<lparr>req_authorization := Some (bearer (signed k ?c))\<rparr>)
              = Next (req\<lparr>req_authorization := Some (bearer (signed k ?c)), req_user := Some ?c\<rparr>)"
    unfolding authenticate_def using s v ne by (simp add: bearer_not_empty)
  from g v f au show ?thesis by simp
qed

theorem access_token_roundtrip_witness:
  "(899::int) < 0 + minutes15
   \<and> generateAccessToken \<lparr>env_JWT_SECRET = Some ''s3cret'', env_REFRESH_SECRET = None,
                           env_NODE_ENV = None\<rparr> 0 (identity_obj ''u1'' ''a@x.com'' False)
       = Inr (signed ''s3cret'' (stamped (identity_obj ''u1'' ''a@x.com'' False) 0 minutes15))
   \<and> jwt_verify (signed ''s3cret'' (stamped (identity_obj ''u1'' ''a@x.com'' False) 0 minutes15))
        (Some ''s3cret'') 899
       = Inr [(''id'', JStr ''u1''), (''email'', JStr ''a@x.com''), (''is_admin'', JBool False),
              (''iat'', JNum 0), (''exp'', JNum 900)]"
  using access_token_roundtrip [of "\<lparr>env_JWT_SECRET = Some ''s3cret'', env_REFRESH_SECRET = None,
      env_NODE_ENV = None\<rparr>" "''s3cret''" 899 0 "''u1''" "''a@x.com''" False]
  by (simp add: minutes15_def middleware_JWT_SECRET_def stamped_def identity_obj_def)

section \<open>The authentication gate\<close>

lemma authenticate_absent:
  "req_authorization req = None \<Longrightarrow> authenticate e now req = Respond (json_message 401 ''Unauthorized'')"
  by (simp add: authenticate_def)

lemma authenticate_no_segment:
  "req_authorization req = Some h \<Longrightarrow>
   second (split_on (Ch CHR '' '') h) = None \<or> second (split_on (Ch CHR '' '') h) = Some [] \<Longrightarrow>
   authenticate e now req = Respond (json_message 401 ''Unauthorized'')"
  by (auto simp add: authenticate_def)

lemma authenticate_invalid:
  "req_authorization req = Some h \<Longrightarrow> second (split_on (Ch CHR '' '') h) = Some t \<Longrightarrow> t \<noteq> [] \<Longrightarrow>
   jwt_verify t (env_JWT_SECRET e) now = Inl err \<Longrightarrow>
   authenticate e now req = Respond (json_message 403 ''Invalid token'')"
  by (auto simp add: authenticate_def middleware_JWT_SECRET_def second_def split: list.splits)

lemma authenticate_valid:
  "req_authorization req = Some h \<Longrightarrow> second (split_on (Ch CHR '' '') h) = Some t \<Longrightarrow> t \<noteq> [] \<Longrightarrow>
   jwt_verify t (env_JWT_SECRET e) now = Inr claims \<Longrightarrow>
   authenticate e now req = Next (req\<lparr>req_user := Some claims\<rparr>)"
  by (auto simp add: authenticate_def middleware_JWT_SECRET_def second_def split: list.splits)

lemma router_protected:
  "\<not> is_public m path \<Longrightarrow>
   authRouter e w st m path req = guarded (authenticate e (clock w) req) (protected_routes e w st m path) st"
  by (auto simp add: authRouter_def is_public_def)

lemma bearer_token_second:
  "second (split_on (Ch CHR '' '') (bearer [Tok j])) = Some [Tok j]"
  by (rule bearer_second) simp



lemma gate_absent:
  "\<not> is_public m path \<Longrightarrow> req_authorization req = None \<Longrightarrow>
   authRouter e w st m path req = (json_message 401 ''Unauthorized'', st)"
  by (simp add: router_protected authenticate_absent guarded_def)

lemma gate_no_segment:
  "\<not> is_public m path \<Longrightarrow> req_authorization req = Some h \<Longrightarrow>
   second (split_on (Ch CHR '' '') h) = None \<or> second (split_on (Ch CHR '' '') h) = Some [] \<Longrightarrow>
   authRouter e w st m path req = (json_message 401 ''Unauthorized'', st)"
  by (simp add: router_protected authenticate_no_segment guarded_def)

lemma gate_invalid:
  "\<not> is_public m path \<Longrightarrow> req_authorization req = Some h \<Longrightarrow>
   second (split_on (Ch CHR '' '') h) = Some t \<Longrightarrow> t \<noteq> [] \<Longrightarrow>
   jwt_verify t (env_JWT_SECRET e) (clock w) = Inl err \<Longrightarrow>
   authRouter e w st m path req = (json_message 403 ''Invalid token'', st)"
  by (simp add: router_protected authenticate_invalid guarded_def)

lemma gate_valid:
  "\<not> is_public m path \<Longrightarrow> req_authorization req = Some h \<Longrightarrow>
   second (split_on (Ch CHR '' '') h) = Some t \<Longrightarrow> t \<noteq> [] \<Longrightarrow>
   jwt_verify t (env_JWT_SECRET e) (clock w) = Inr claims \<Longrightarrow>
   authRouter e w st m path req = protected_routes e w st m path (req\<lparr>req_user := Some claims\<rparr>)"
  by (simp add: router_protected authenticate_valid guarded_def)

lemma gate_rejects_token:
  assumes "\<not> is_public m path" and "req_authorization req = Some (bearer [Tok j])"
    and "jwt_verify [Tok j] (env_JWT_SECRET e) (clock w) = Inl err"
  shows "authRouter e w st m path req = (json_message 403 ''Invalid token'', st)"
  using assms(1,2) bearer_token_second _ assms(3) by (rule gate_invalid) simp


text \<open>
  Claim C5. On every route behind the gate: a request without an Authorization header, or
  whose header has no token segment after the first space, is answered 401 and the table
  is untouched (no predicate or handler runs); a request whose token fails verification
  (signed under another key, claims changed under the signature, or expired) is answered
  403; a request whose token verifies goes on to the routes with the decoded claims
  attached as the user.
\<close>

theorem authentication_gate:
  "\<not> is_public m path \<longrightarrow>
   (req_authorization req = None \<longrightarrow>
      authenticate e (clock w) req = Respond (json_message 401 ''Unauthorized'')
      \<and> authRouter e w st m path req = (json_message 401 ''Unauthorized'', st))
   \<and> (req_authorization req = Some h
        \<and> (second (split_on (Ch CHR '' '') h) = None \<or> second (split_on (Ch CHR '' '') h) = Some []) \<longrightarrow>
      authenticate e (clock w) req = Respond (json_message 401 ''Unauthorized'')
      \<and> authRouter e w st m path req = (json_message 401 ''Unauthorized'', st))
   \<and> (req_authorization req = Some h \<and> second (split_on (Ch CHR '' '') h) = Some t \<and> t \<noteq> []
        \<and> jwt_verify t (env_JWT_SECRET e) (clock w) = Inl err \<longrightarrow>
      authenticate e (clock w) req = Respond (json_message 403 ''Invalid token'')
      \<and> authRouter e w st m path req = (json_message 403 ''Invalid token'', st))
   \<and> (req_authorization req = Some (bearer [Tok (Jwt c (Mac k' c'))])
        \<and> (env_JWT_SECRET e \<noteq> Some k' \<or> c \<noteq> c'
            \<or> js_get c ''exp'' = JNum x \<and> x \<le> clock w) \<longrightarrow>
      authRouter e w st m path req = (json_message 403 ''Invalid token'', st))
   \<and> (req_authorization req = Some h \<and> second (split_on (Ch CHR '' '') h) = Some t \<and> t \<noteq> []
        \<and> jwt_verify t (env_JWT_SECRET e) (clock w) = Inr claims \<longrightarrow>
      authenticate e (clock w) req = Next (req\<lparr>req_user := Some claims\<rparr>)
      \<and> authRouter e w st m path req
          = protected_routes e w st m path (req\<lparr>req_user := Some claims\<rparr>))"
proof (rule impI)
  assume p: "\<not> is_public m path"
  have c1: "req_authorization req = None \<longrightarrow>
      authenticate e (clock w) req = Respond (json_message 401 ''Unauthorized'')
      \<and> authRouter e w st m path req = (json_message 401 ''Unauthorized'', st)"
    using p by (simp add: authenticate_absent gate_absent)
  have c2: "req_authorization req = Some h
        \<and> (second (split_on (Ch CHR '' '') h) = None \<or> second (split_on (Ch CHR '' '') h) = Some []) \<longrightarrow>
      authenticate e (clock w) req = Respond (json_message 401 ''Unauthorized'')
      \<and> authRouter e w st m path req = (json_message 401 ''Unauthorized'', st)"
    using p authenticate_no_segment [of req h e "clock w"] gate_no_segment [of m path req h e w st]
    by blast
  have c3: "req_authorization req = Some h \<and> second (split_on (Ch CHR '' '') h) = Some t \<and> t \<noteq> []
        \<and> jwt_verify t (env_JWT_SECRET e) (clock w) = Inl err \<longrightarrow>
      authenticate e (clock w) req = Respond (json_message 403 ''Invalid token'')
      \<and> authRouter e w st m path req = (json_message 403 ''Invalid token'', st)"
    using p authenticate_invalid [of req h t e "clock w" err] gate_invalid [of m path req h t e w err st]
    by blast
  have c4: "req_authorization req = Some (bearer [Tok (Jwt c (Mac k' c'))])
        \<and> (env_JWT_SECRET e \<noteq> Some k' \<or> c \<noteq> c'
            \<or> js_get c ''exp'' = JNum x \<and> x \<le> clock w) \<longrightarrow>
      authRouter e w st m path req = (json_message 403 ''Invalid token'', st)"
  proof (rule impI, elim conjE)
    assume a: "req_authorization req = Some (bearer [Tok (Jwt c (Mac k' c'))])"
      and b: "env_JWT_SECRET e \<noteq> Some k' \<or> c \<noteq> c' \<or> js_get c ''exp'' = JNum x \<and> x \<le> clock w"
    have "\<exists>err. jwt_verify [Tok (Jwt c (Mac k' c'))] (env_JWT_SECRET e) (clock w) = Inl err"
      using b verify_wrong_key [of "env_JWT_SECRET e" k' c c' "clock w"]
        verify_tampered [of c c' k' "env_JWT_SECRET e" "clock w"]
        verify_expired [of c x "clock w" "Mac k' c'" "env_JWT_SECRET e"]
      by blast
    then obtain er where "jwt_verify [Tok (Jwt c (Mac k' c'))] (env_JWT_SECRET e) (clock w) = Inl er" ..
    with p a show "authRouter e w st m path req = (json_message 403 ''Invalid token'', st)"
      by (rule gate_rejects_token)
  qed
  have c5: "req_authorization req = Some h \<and> second (split_on (Ch CHR '' '') h) = Some t \<and> t \<noteq> []
        \<and> jwt_verify t (env_JWT_SECRET e) (clock w) = Inr claims \<longrightarrow>
      authenticate e (clock w) req = Next (req\<lparr>req_user := Some claims\<rparr>)
      \<and> authRouter e w st m path req
          = protected_routes e w st m path (req\<lparr>req_user := Some claims\<rparr>)"
    using p authenticate_valid [of req h t e "clock w" claims] gate_valid [of m path req h t e w claims st]
    by blast
  from c1 c2 c3 c4 c5 show "(req_authorization req = None \<longrightarrow>
      authenticate e (clock w) req = Respond (json_message 401 ''Unauthorized'')
      \<and> authRouter e w st m path req = (json_message 401 ''Unauthorized'', st))
   \<and> (req_authorization req = Some h
        \<and> (second (split_on (Ch CHR '' '') h) = None \<or> second (split_on (Ch CHR '' '') h) = Some []) \<longrightarrow>
      authenticate e (clock w) req = Respond (json_message 401 ''Unauthorized'')
      \<and> authRouter e w st m path req = (json_message 401 ''Unauthorized'', st))
   \<and> (req_authorization req = Some h \<and> second (split_on (Ch CHR '' '') h) = Some t \<and> t \<noteq> []
        \<and> jwt_verify t (env_JWT_SECRET e) (clock w) = Inl err \<longrightarrow>
      authenticate e (clock w) req = Respond (json_message 403 ''Invalid token'')
      \<and> authRouter e w st m path req = (json_message 403 ''Invalid token'', st))
   \<and> (req_authorization req = Some (bearer [Tok (Jwt c (Mac k' c'))])
        \<and> (env_JWT_SECRET e \<noteq> Some k' \<or> c \<noteq> c'
            \<or> js_get c ''exp'' = JNum x \<and> x \<le> clock w) \<longrightarrow>
      authRouter e w st m path req = (json_message 403 ''Invalid token'', st))
   \<and> (req_authorization req = Some h \<and> second (split_on (Ch CHR '' '') h) = Some t \<and> t \<noteq> []
        \<and> jwt_verify t (env_JWT_SECRET e) (clock w) = Inr claims \<longrightarrow>
      authenticate e (clock w) req = Next (req\<lparr>req_user := Some claims\<rparr>)
      \<and> authRouter e w st m path req
          = protected_routes e w st m path (req\<lparr>req_user := Some claims\<rparr>))"
    by (intro conjI)
qed


theorem authentication_gate_witness:
  "\<not> is_public GET [''users'']
   \<and> authRouter sample_env sample_world [] GET [''users''] sample_request
       = (json_message 401 ''Unauthorized'', [])
   \<and> authRouter sample_env sample_world [] GET [''users'']
        (sample_request\<lparr>req_authorization := Some (plain ''Bearer '')\<rparr>)
       = (json_message 401 ''Unauthorized'', [])
   \<and> authRouter sample_env sample_world [] GET [''users'']
        (sample_request\<lparr>req_authorization := Some (plain ''Bearer x'')\<rparr>)
       = (json_message 403 ''Invalid token'', [])
   \<and> authRouter sample_env sample_world [] GET [''users'']
        (sample_request\<lparr>req_authorization :=
           Some (bearer [Tok (Jwt [(''id'', JStr ''u1''), (''exp'', JNum 1000)]
                              (Mac ''s3cret'' [(''id'', JStr ''u1''), (''exp'', JNum 1000)]))])\<rparr>)
       = (json_message 403 ''Invalid token'', [])
   \<and> authenticate sample_env (clock sample_world)
        (sample_request\<lparr>req_authorization :=
           Some (bearer [Tok (Jwt [(''id'', JStr ''u1''), (''exp'', JNum 1001)]
                              (Mac ''s3cret'' [(''id'', JStr ''u1''), (''exp'', JNum 1001)]))])\<rparr>)
       = Next (sample_request\<lparr>req_authorization :=
           Some (bearer [Tok (Jwt [(''id'', JStr ''u1''), (''exp'', JNum 1001)]
                              (Mac ''s3cret'' [(''id'', JStr ''u1''), (''exp'', JNum 1001)]))]),
           req_user := Some [(''id'', JStr ''u1''), (''exp'', JNum 1001)]\<rparr>)"
  using authentication_gate [of GET "[''users'']" sample_request sample_env sample_world "[]"]
    authentication_gate [of GET "[''users'']"
      "sample_request\<lparr>req_authorization := Some (plain ''Bearer '')\<rparr>" sample_env sample_world
      "[]" "plain ''Bearer ''"]
    authentication_gate [of GET "[''users'']"
      "sample_request\<lparr>req_authorization := Some (plain ''Bearer x'')\<rparr>" sample_env sample_world
      "[]" "plain ''Bearer x''" "[Ch CHR ''x'']" JwtMalformed]
    authentication_gate [of GET "[''users'']"
      "sample_request\<lparr>req_authorization :=
           Some (bearer [Tok (Jwt [(''id'', JStr ''u1''), (''exp'', JNum 1000)]
                              (Mac ''s3cret'' [(''id'', JStr ''u1''), (''exp'', JNum 1000)]))])\<rparr>"
      sample_env sample_world "[]" _ _ _ "[(''id'', JStr ''u1''), (''exp'', JNum 1000)]" "''s3cret''"
      "[(''id'', JStr ''u1''), (''exp'', JNum 1000)]" 1000]
    authentication_gate [of GET "[''users'']"
      "sample_request\<lparr>req_authorization :=
           Some (bearer [Tok (Jwt [(''id'', JStr ''u1''), (''exp'', JNum 1001)]
                              (Mac ''s3cret'' [(''id'', JStr ''u1''), (''exp'', JNum 1001)]))])\<rparr>"
      sample_env sample_world "[]"
      "bearer [Tok (Jwt [(''id'', JStr ''u1''), (''exp'', JNum 1001)]
                              (Mac ''s3cret'' [(''id'', JStr ''u1''), (''exp'', JNum 1001)]))]"
      "[Tok (Jwt [(''id'', JStr ''u1''), (''exp'', JNum 1001)]
                              (Mac ''s3cret'' [(''id'', JStr ''u1''), (''exp'', JNum 1001)]))]"
      _ _ _ _ _ "[(''id'', JStr ''u1''), (''exp'', JNum 1001)]"]
  by (simp add: is_public_def sample_request_def sample_env_def sample_world_def plain_def
      bearer_def second_def jwt_verify_def js_get_def)


section \<open>The secrets at start-up\<close>

text \<open>
  Claim C7, as the code has it. Start-up aborts exactly when the access secret is absent
  (or empty). With an access secret present it succeeds: an absent or empty refresh secret
  is not fatal but falls back to the access secret, and a configured one is used as it is;
  the token module computes the same two secrets.
\<close>

theorem startup_fail_fast:
  "(\<not> secret_ok (env_JWT_SECRET e) \<longrightarrow>
       startup e = Inl (NotDefined ''JWT_SECRET is not defined''))
   \<and> (env_JWT_SECRET e = Some k \<and> k \<noteq> [] \<longrightarrow>
       startup e = Inr \<lparr>access_secret = k,
                        refresh_secret = (case env_REFRESH_SECRET e of
                                            None \<Rightarrow> k
                                          | Some r \<Rightarrow> if r = [] then k else r)\<rparr>
       \<and> token_JWT_SECRET e = Some k
       \<and> token_REFRESH_SECRET e = Some (case env_REFRESH_SECRET e of
                                            None \<Rightarrow> k
                                          | Some r \<Rightarrow> if r = [] then k else r))"
  by (auto simp add: startup_def middleware_load_def controller_load_def secret_ok_def or_else_def
      token_JWT_SECRET_def token_REFRESH_SECRET_def split: option.splits)

theorem startup_fail_fast_witness:
  "\<not> secret_ok (env_JWT_SECRET \<lparr>env_JWT_SECRET = None, env_REFRESH_SECRET = Some ''r'',
                                  env_NODE_ENV = None\<rparr>)
   \<and> startup \<lparr>env_JWT_SECRET = None, env_REFRESH_SECRET = Some ''r'', env_NODE_ENV = None\<rparr>
       = Inl (NotDefined ''JWT_SECRET is not defined'')
   \<and> startup \<lparr>env_JWT_SECRET = Some ''k'', env_REFRESH_SECRET = Some '''', env_NODE_ENV = None\<rparr>
       = Inr \<lparr>access_secret = ''k'', refresh_secret = ''k''\<rparr>
   \<and> startup \<lparr>env_JWT_SECRET = Some ''k'', env_REFRESH_SECRET = Some ''r'', env_NODE_ENV = None\<rparr>
       = Inr \<lparr>access_secret = ''k'', refresh_secret = ''r''\<rparr>"
  using startup_fail_fast [of "\<lparr>env_JWT_SECRET = None, env_REFRESH_SECRET = Some ''r'',
      env_NODE_ENV = None\<rparr>" "''k''"]
    startup_fail_fast [of "\<lparr>env_JWT_SECRET = Some ''k'', env_REFRESH_SECRET = Some '''',
      env_NODE_ENV = None\<rparr>" "''k''"]
    startup_fail_fast [of "\<lparr>env_JWT_SECRET = Some ''k'', env_REFRESH_SECRET = Some ''r'',
      env_NODE_ENV = None\<rparr>" "''k''"]
  by (simp add: secret_ok_def)

text \<open>
  The first half of claim C7, "start-up aborts if either signing secret is absent", does
  not hold for the refresh secret: with only the access secret configured the process
  starts, and signs refresh tokens with the access secret.
\<close>

theorem startup_refresh_absent_counterexample:
  "env_REFRESH_SECRET \<lparr>env_JWT_SECRET = Some ''s3cret'', env_REFRESH_SECRET = None,
                        env_NODE_ENV = None\<rparr> = None
   \<and> startup \<lparr>env_JWT_SECRET = Some ''s3cret'', env_REFRESH_SECRET = None, env_NODE_ENV = None\<rparr>
       = Inr \<lparr>access_secret = ''s3cret'', refresh_secret = ''s3cret''\<rparr>"
  by (simp add: startup_def middleware_load_def controller_load_def secret_ok_def or_else_def)

section \<open>Owner or admin\<close>

text \<open>
  Claim C6. Without an authenticated identity the predicate answers 401. With an identity
  whose is_admin flag is a boolean (or absent), it lets the request pass exactly when the
  identity's id is the value of the named path parameter or the flag is true, and answers
  403 otherwise.
\<close>

theorem requireOwnerOrAdmin_iff:
  "(req_user req = None \<longrightarrow>
      requireOwnerOrAdmin p req = Respond (json_message 401 ''Unauthorized''))
   \<and> (req_user req = Some u \<and> js_get u ''is_admin'' \<in> {JUndefined, JBool False, JBool True} \<longrightarrow>
        ((requireOwnerOrAdmin p req = Next req)
           = (js_get u ''id'' = param req p \<or> js_get u ''is_admin'' = JBool True))
      \<and> (requireOwnerOrAdmin p req \<noteq> Next req \<longrightarrow>
           requireOwnerOrAdmin p req = Respond (json_message 403 ''Access denied'')))"
  by (auto simp add: requireOwnerOrAdmin_def Let_def)


theorem requireOwnerOrAdmin_iff_witness:
  "requireOwnerOrAdmin ''userId'' (sample_request\<lparr>req_params := [(''userId'', ''u1'')]\<rparr>)
     = Respond (json_message 401 ''Unauthorized'')
   \<and> requireOwnerOrAdmin ''userId''
        (sample_request\<lparr>req_params := [(''userId'', ''u1'')],
                         req_user := Some (identity_obj ''u1'' ''a@x.com'' False)\<rparr>)
     = Next (sample_request\<lparr>req_params := [(''userId'', ''u1'')],
                             req_user := Some (identity_obj ''u1'' ''a@x.com'' False)\<rparr>)
   \<and> requireOwnerOrAdmin ''userId''
        (sample_request\<lparr>req_params := [(''userId'', ''u1'')],
                         req_user := Some (identity_obj ''u9'' ''r@x.com'' True)\<rparr>)
     = Next (sample_request\<lparr>req_params := [(''userId'', ''u1'')],
                             req_user := Some (identity_obj ''u9'' ''r@x.com'' True)\<rparr>)
   \<and> requireOwnerOrAdmin ''userId''
        (sample_request\<lparr>req_params := [(''userId'', ''u1'')],
                         req_user := Some (identity_obj ''u2'' ''b@x.com'' False)\<rparr>)
     = Respond (json_message 403 ''Access denied'')"
  using requireOwnerOrAdmin_iff [of "sample_request\<lparr>req_params := [(''userId'', ''u1'')]\<rparr>" "''userId''"]
    requireOwnerOrAdmin_iff [of "sample_request\<lparr>req_params := [(''userId'', ''u1'')],
                         req_user := Some (identity_obj ''u1'' ''a@x.com'' False)\<rparr>" "''userId''"
      "identity_obj ''u1'' ''a@x.com'' False"]
    requireOwnerOrAdmin_iff [of "sample_request\<lparr>req_params := [(''userId'', ''u1'')],
                         req_user := Some (identity_obj ''u9'' ''r@x.com'' True)\<rparr>" "''userId''"
      "identity_obj ''u9'' ''r@x.com'' True"]
    requireOwnerOrAdmin_iff [of "sample_request\<lparr>req_params := [(''userId'', ''u1'')],
                         req_user := Some (identity_obj ''u2'' ''b@x.com'' False)\<rparr>" "''userId''"
      "identity_obj ''u2'' ''b@x.com'' False"]
  by (simp add: sample_request_def identity_obj_def js_get_def param_def)

section \<open>A refresh token presented as a bearer token\<close>

lemma refresh_issue:
  assumes "token_REFRESH_SECRET e = Some r" and "r \<noteq> []" and "js_get usr ''id'' = JStr i"
  shows "generateRefreshToken e now usr = Inr (signed r (stamped [(''id'', JStr i)] now days7))"
  using assms by (simp add: generateRefreshToken_def sign_id)

text \<open>
  Claim C2, as the code has it. When a refresh secret is configured that is not the access
  secret, a refresh token issued for any id and presented as \<open>Authorization: Bearer\<close> on a
  route behind the gate fails the verification of the gate, at any time, and the request is
  answered 403 with the table untouched.
\<close>

theorem refresh_as_bearer_rejected:
  assumes "env_REFRESH_SECRET e = Some r" and "r \<noteq> []" and "env_JWT_SECRET e \<noteq> Some r"
    and "js_get usr ''id'' = JStr i" and "\<not> is_public m path"
  shows "generateRefreshToken e now usr = Inr (signed r (stamped [(''id'', JStr i)] now days7))
       \<and> authRouter e w st m path
            (req\<lparr>req_authorization :=
                   Some (bearer (signed r (stamped [(''id'', JStr i)] now days7)))\<rparr>)
           = (json_message 403 ''Invalid token'', st)"
proof -
  have t: "token_REFRESH_SECRET e = Some r"
    using assms(1,2) by (simp add: token_REFRESH_SECRET_def or_else_def secret_ok_def)
  have g: "generateRefreshToken e now usr = Inr (signed r (stamped [(''id'', JStr i)] now days7))"
    using t assms(2,4) by (rule refresh_issue)
  obtain err where v: "jwt_verify [Tok (Jwt (stamped [(''id'', JStr i)] now days7)
        (Mac r (stamped [(''id'', JStr i)] now days7)))] (env_JWT_SECRET e) (clock w) = Inl err"
    using verify_wrong_key [OF assms(3)] by blast
  have "authRouter e w st m path
            (req\<lparr>req_authorization :=
                   Some (bearer (signed r (stamped [(''id'', JStr i)] now days7)))\<rparr>)
           = (json_message 403 ''Invalid token'', st)"
    using assms(5) _ v by (rule gate_rejects_token) (simp add: signed_def)
  with g show ?thesis by simp
qed

theorem refresh_as_bearer_rejected_witness:
  "generateRefreshToken sample_env2 0 [(''id'', JStr ''u1'')]
     = Inr (signed ''r3fresh'' (stamped [(''id'', JStr ''u1'')] 0 days7))
   \<and> authRouter sample_env2 sample_world [] POST [''logout'']
        (sample_request\<lparr>req_authorization :=
           Some (bearer (signed ''r3fresh'' (stamped [(''id'', JStr ''u1'')] 0 days7)))\<rparr>)
       = (json_message 403 ''Invalid token'', [])"
  using refresh_as_bearer_rejected [of sample_env2 "''r3fresh''" "[(''id'', JStr ''u1'')]" "''u1''"
      POST "[''logout'']" 0 sample_world "[]" sample_request]
  by (simp add: sample_env2_def js_get_def is_public_def)

text \<open>
  Claim C2 as written, for every configuration, fails in the fallback mode: without a
  refresh secret the refresh token is signed with the access secret, passes the gate as a
  bearer token, and the logout route answers 200.
\<close>

theorem refresh_as_bearer_counterexample:
  "generateRefreshToken sample_env 0 [(''id'', JStr ''u1'')]
     = Inr (signed ''s3cret'' (stamped [(''id'', JStr ''u1'')] 0 days7))
   \<and> \<not> is_public POST [''logout'']
   \<and> res_status (fst (authRouter sample_env sample_world [] POST [''logout'']
        (sample_request\<lparr>req_authorization :=
           Some (bearer (signed ''s3cret'' (stamped [(''id'', JStr ''u1'')] 0 days7)))\<rparr>))) = 200"
  by (simp add: generateRefreshToken_def token_REFRESH_SECRET_def token_JWT_SECRET_def or_else_def
      secret_ok_def sample_env_def sign_id is_public_def authRouter_def authenticate_def
      bearer_second signed_def stamped_def bearer_not_empty middleware_JWT_SECRET_def
      jwt_verify_def js_get_def days7_def sample_world_def sample_request_def guarded_def
      protected_routes_def user_param_def logout_def)

section \<open>The table\<close>

lemma eq_filter_email: "eq_filter ''email'' v r = (row_email r = js_String v)"
  by (simp add: eq_filter_def row_obj_def js_get_def)

lemma eq_filter_id: "eq_filter ''id'' v r = (row_id r = js_String v)"
  by (simp add: eq_filter_def row_obj_def js_get_def)

lemma select_single_absent:
  "\<forall>r\<in>set st. \<not> eq_filter col v r \<Longrightarrow> \<exists>msg. select_single w st col v = Inl msg"
  by (cases "db_fault w") (simp_all add: select_single_def single_def filter_False)

lemma select_single_one:
  "db_fault w = None \<Longrightarrow> filter (eq_filter col v) st = [usr] \<Longrightarrow> select_single w st col v = Inr usr"
  by (simp add: select_single_def single_def)

lemma select_single_found:
  "select_single w st col v = Inr usr \<Longrightarrow> usr \<in> set st \<and> eq_filter col v usr"
proof -
  assume a: "select_single w st col v = Inr usr"
  then have "filter (eq_filter col v) st = [usr]"
    by (cases "db_fault w"; cases "filter (eq_filter col v) st")
       (auto simp add: select_single_def single_def split: list.splits)
  then have "usr \<in> set (filter (eq_filter col v) st)"
    by simp
  then show ?thesis by simp
qed

lemma insert_user_ok:
  "db_fault w = None \<Longrightarrow>
   insert_user w st [(''email'', em), (''password'', JStr h), (''is_admin'', JBool b)]
     = (Inr (new_row w (js_String em) h b), st @ [new_row w (js_String em) h b])"
  by (simp add: insert_user_def js_get_def Let_def)

lemma delete_single_keeps:
  "r \<in> set st \<Longrightarrow> \<not> eq_filter col v r \<Longrightarrow> r \<in> set (snd (delete_single w st col v))"
  by (auto simp add: delete_single_def split: option.splits sum.splits)

section \<open>Login\<close>

lemma login_wrong_password:
  assumes "truthy (js_get (req_body req) ''email'')"
    and "js_get (req_body req) ''password'' = JStr pw" and "pw \<noteq> []"
    and "\<forall>r\<in>set st. row_email r = js_String (js_get (req_body req) ''email'')
           \<longrightarrow> \<not> bcrypt_compare w pw (row_password r)"
  shows "login e w st req = (json_message 401 ''Invalid email or password'', st)"
proof (cases "select_single w st ''email'' (js_get (req_body req) ''email'')")
  case (Inl msg)
  with assms(1,2,3) show ?thesis by (simp add: login_def)
next
  case (Inr usr)
  then have "usr \<in> set st \<and> eq_filter ''email'' (js_get (req_body req) ''email'') usr"
    by (rule select_single_found)
  with assms(4) have "\<not> bcrypt_compare w pw (row_password usr)"
    by (simp add: eq_filter_email)
  with assms(1,2,3) Inr show ?thesis
    by (simp add: login_def compare_password_def)
qed

lemma login_unknown_email:
  assumes "truthy (js_get (req_body req) ''email'')" and "truthy (js_get (req_body req) ''password'')"
    and "\<forall>r\<in>set st. row_email r \<noteq> js_String (js_get (req_body req) ''email'')"
  shows "login e w st req = (json_message 401 ''Invalid email or password'', st)"
proof -
  from assms(3) have "\<forall>r\<in>set st. \<not> eq_filter ''email'' (js_get (req_body req) ''email'') r"
    by (simp add: eq_filter_email)
  then obtain msg where "select_single w st ''email'' (js_get (req_body req) ''email'') = Inl msg"
    using select_single_absent by blast
  with assms(1,2) show ?thesis by (simp add: login_def)
qed

text \<open>
  For a password that is a string the two rejections coincide: a request whose email some
  row has and whose password the password check rejects, and a request whose email no row
  has, get the same response and leave the table as it is.
\<close>

lemma login_string_password_uniform:
  assumes "truthy (js_get (req_body r1) ''email'')"
    and "js_get (req_body r1) ''password'' = JStr pw" and "pw \<noteq> []"
    and "\<exists>r\<in>set st1. row_email r = js_String (js_get (req_body r1) ''email'')"
    and "\<forall>r\<in>set st1. row_email r = js_String (js_get (req_body r1) ''email'')
           \<longrightarrow> \<not> bcrypt_compare w1 pw (row_password r)"
    and "truthy (js_get (req_body r2) ''email'')" and "truthy (js_get (req_body r2) ''password'')"
    and "\<forall>r\<in>set st2. row_email r \<noteq> js_String (js_get (req_body r2) ''email'')"
  shows "login e w1 st1 r1 = (json_message 401 ''Invalid email or password'', st1)
       \<and> login e w2 st2 r2 = (json_message 401 ''Invalid email or password'', st2)
       \<and> fst (login e w1 st1 r1) = fst (login e w2 st2 r2)
       \<and> res_status (fst (login e w1 st1 r1)) = 401
       \<and> res_body (fst (login e w1 st1 r1)) = res_body (fst (login e w2 st2 r2))
       \<and> res_set_cookie (fst (login e w1 st1 r1)) = None
       \<and> res_set_cookie (fst (login e w2 st2 r2)) = None"
  using login_wrong_password [OF assms(1,2,3,5), of e] login_unknown_email [OF assms(6-8), of e w2]
  by (simp add: json_message_def)

lemma compare_nonstring:
  "\<forall>s. pw \<noteq> JStr s \<Longrightarrow> compare_password w pw h = Inl BcryptBadArgs"
  by (cases pw) (simp_all add: compare_password_def)

lemma login_nonstring_password:
  assumes "truthy (js_get (req_body req) ''email'')"
    and "truthy (js_get (req_body req) ''password'')"
    and "\<forall>s. js_get (req_body req) ''password'' \<noteq> JStr s"
    and "db_fault w = None"
    and "filter (eq_filter ''email'' (js_get (req_body req) ''email'')) st = [usr]"
  shows "login e w st req = (internal_error BcryptBadArgs, st)"
  using assms(1,2) select_single_one [OF assms(4,5)] compare_nonstring [OF assms(3)]
  by (simp add: login_def)

text \<open>
  Claim C4 fails on the code. The handler answers both rejections with the one message,
  but the password check throws on a password that is not a string, and it is reached only
  when the email exists. With the password \<open>12345\<close> (a JSON number) a login for the
  existing email is answered 500 by the catch block and a login for an unknown email is
  answered 401: the two responses tell whether the email exists.
\<close>

theorem login_reveals_existing_email:
  "login sample_env sample_world sample_store
     (sample_request\<lparr>req_body := [(''email'', JStr ''a@x.com''), (''password'', JNum 12345)]\<rparr>)
     = (\<lparr>res_status = 500,
         res_body = Fields [(''message'', BStr ''Internal server error''),
                            (''error'', BErr BcryptBadArgs)],
         res_set_cookie = None\<rparr>, sample_store)
   \<and> login sample_env sample_world sample_store
     (sample_request\<lparr>req_body := [(''email'', JStr ''nobody@x.com''), (''password'', JNum 12345)]\<rparr>)
     = (\<lparr>res_status = 401,
         res_body = Fields [(''message'', BStr ''Invalid email or password'')],
         res_set_cookie = None\<rparr>, sample_store)"
proof -
  let ?r1 = "sample_request\<lparr>req_body := [(''email'', JStr ''a@x.com''), (''password'', JNum 12345)]\<rparr>"
  let ?r2 = "sample_request\<lparr>req_body := [(''email'', JStr ''nobody@x.com''), (''password'', JNum 12345)]\<rparr>"
  have h1: "truthy (js_get (req_body ?r1) ''email'')"
    by (simp add: sample_request_def js_get_def)
  have h2: "truthy (js_get (req_body ?r1) ''password'')"
    by (simp add: sample_request_def js_get_def)
  have h3: "\<forall>s. js_get (req_body ?r1) ''password'' \<noteq> JStr s"
    by (simp add: sample_request_def js_get_def)
  have h4: "db_fault sample_world = None"
    by (simp add: sample_world_def)
  have h5: "filter (eq_filter ''email'' (js_get (req_body ?r1) ''email'')) sample_store = [sample_user]"
    by (simp add: sample_request_def js_get_def sample_store_def sample_user_def eq_filter_email)
  have a: "login sample_env sample_world sample_store ?r1 = (internal_error BcryptBadArgs, sample_store)"
    using h1 h2 h3 h4 h5 by (rule login_nonstring_password)
  have k1: "truthy (js_get (req_body ?r2) ''email'')"
    by (simp add: sample_request_def js_get_def)
  have k2: "truthy (js_get (req_body ?r2) ''password'')"
    by (simp add: sample_request_def js_get_def)
  have k3: "\<forall>r\<in>set sample_store. row_email r \<noteq> js_String (js_get (req_body ?r2) ''email'')"
    by (simp add: sample_request_def js_get_def sample_store_def)
  have b: "login sample_env sample_world sample_store ?r2
             = (json_message 401 ''Invalid email or password'', sample_store)"
    using k1 k2 k3 by (rule login_unknown_email)
  from a b show ?thesis
    by (simp add: internal_error_def json_error_def json_message_def)
qed

theorem login_reveals_existing_email_witness:
  "res_status (fst (login sample_env sample_world sample_store
     (sample_request\<lparr>req_body := [(''email'', JStr ''a@x.com''), (''password'', JNum 12345)]\<rparr>)))
     = 500
   \<and> res_status (fst (login sample_env sample_world sample_store
     (sample_request\<lparr>req_body := [(''email'', JStr ''nobody@x.com''), (''password'', JNum 12345)]\<rparr>)))
     = 401"
  using login_reveals_existing_email by simp

section \<open>Registration\<close>

lemma register_success:
  assumes "truthy (js_get (req_body req) ''email'')"
    and "js_get (req_body req) ''password'' = JStr pw" and "pw \<noteq> []"
    and "\<forall>r\<in>set st. row_email r \<noteq> js_String (js_get (req_body req) ''email'')"
    and "db_fault w = None"
    and "env_JWT_SECRET e = Some k" and "k \<noteq> []"
    and "token_REFRESH_SECRET e = Some rk" and "rk \<noteq> []"
    and "new = new_row w (js_String (js_get (req_body req) ''email'')) (bcrypt_hash w pw)
                 (js_get (req_body req) ''is_admin'' = JBool True)"
  shows "register e w st req =
           (\<lparr>res_status = 201,
             res_body = Fields [(''message'', BStr ''User created successfully''),
                                (''accessToken'',
                                 BWire (signed k (stamped (row_obj new) (clock w) minutes15)))],
             res_set_cookie = Some (refresh_cookie e
                (signed rk (stamped [(''id'', JStr (db_new_id w))] (clock w) days7)))\<rparr>,
            st @ [new])"
proof -
  let ?em = "js_get (req_body req) ''email''"
  let ?adm = "js_get (req_body req) ''is_admin''"
  from assms(4) have "\<forall>r\<in>set st. \<not> eq_filter ''email'' ?em r"
    by (simp add: eq_filter_email)
  then obtain msg where sel: "select_single w st ''email'' ?em = Inl msg"
    using select_single_absent by blast
  have h: "hash_password w (JStr pw) = Inr (bcrypt_hash w pw)"
    by (simp add: hash_password_def)
  have b: "(case ?adm of JBool b \<Rightarrow> JBool b | _ \<Rightarrow> JBool False) = JBool (?adm = JBool True)"
    by (cases ?adm) auto
  have ins: "insert_user w st [(''email'', ?em), (''password'', JStr (bcrypt_hash w pw)),
                 (''is_admin'', JBool (?adm = JBool True))] = (Inr new, st @ [new])"
    using assms(5) by (simp add: insert_user_ok assms(10))
  have at: "generateAccessToken e (clock w) (row_obj new)
              = Inr (signed k (stamped (row_obj new) (clock w) minutes15))"
    using assms(6,7) by (simp add: generateAccessToken_def token_JWT_SECRET_def sign_row)
  have rt: "generateRefreshToken e (clock w) [(''id'', JStr (row_id new))]
              = Inr (signed rk (stamped [(''id'', JStr (db_new_id w))] (clock w) days7))"
    using assms(8,9)
    by (simp add: refresh_issue [where i = "db_new_id w"] js_get_def assms(10) new_row_def)
  show ?thesis
    unfolding register_def Let_def using assms(1,2,3) sel h b ins at rt by simp
qed

text \<open>
  Claim C9. A registration request with a fresh email and a password, served while the
  database is up, stores the new user with the is_admin flag taken from the request body:
  the stored flag is true exactly when the body has is_admin set to the boolean true (absent
  or of another type it is false), and the access token of the response asserts the same
  flag. With \<open>is_admin: true\<close> in the body the new user is an admin.
\<close>

theorem register_admin_from_body:
  assumes "truthy (js_get (req_body req) ''email'')"
    and "js_get (req_body req) ''password'' = JStr pw" and "pw \<noteq> []"
    and "\<forall>r\<in>set st. row_email r \<noteq> js_String (js_get (req_body req) ''email'')"
    and "db_fault w = None"
    and "env_JWT_SECRET e = Some k" and "k \<noteq> []"
    and "token_REFRESH_SECRET e = Some rk" and "rk \<noteq> []"
    and "new = new_row w (js_String (js_get (req_body req) ''email'')) (bcrypt_hash w pw)
                 (js_get (req_body req) ''is_admin'' = JBool True)"
  shows "register e w st req =
           (\<lparr>res_status = 201,
             res_body = Fields [(''message'', BStr ''User created successfully''),
                                (''accessToken'',
                                 BWire (signed k (stamped (row_obj new) (clock w) minutes15)))],
             res_set_cookie = Some (refresh_cookie e
                (signed rk (stamped [(''id'', JStr (db_new_id w))] (clock w) days7)))\<rparr>,
            st @ [new])
       \<and> js_get (stamped (row_obj new) (clock w) minutes15) ''is_admin''
           = JBool (js_get (req_body req) ''is_admin'' = JBool True)
       \<and> row_is_admin new = (js_get (req_body req) ''is_admin'' = JBool True)"
proof -
  have c: "js_get (stamped (row_obj new) (clock w) minutes15) ''is_admin''
           = JBool (js_get (req_body req) ''is_admin'' = JBool True)"
    by (simp add: row_stamped_fields assms(10) new_row_def)
  have d: "row_is_admin new = (js_get (req_body req) ''is_admin'' = JBool True)"
    by (simp add: assms(10) new_row_def)
  from register_success [OF assms] c d show ?thesis by blast
qed

theorem register_admin_from_body_witness:
  "register sample_env sample_world sample_store
     (sample_request\<lparr>req_body := [(''email'', JStr ''root@x.com''), (''password'', JStr ''pw''),
                                    (''is_admin'', JBool True)]\<rparr>)
     = (\<lparr>res_status = 201,
         res_body = Fields [(''message'', BStr ''User created successfully''),
                            (''accessToken'',
                             BWire (signed ''s3cret''
                               [(''id'', JStr ''u2''), (''email'', JStr ''root@x.com''),
                                (''password'', JStr ''#pw''), (''is_admin'', JBool True),
                                (''created_at'', JStr ''2025-06-01''), (''iat'', JNum 1000),
                                (''exp'', JNum 1900)]))],
         res_set_cookie = Some (refresh_cookie sample_env
            (signed ''s3cret'' [(''id'', JStr ''u2''), (''iat'', JNum 1000),
                               (''exp'', JNum 605800)]))\<rparr>,
        sample_store @ [\<lparr>row_id = ''u2'', row_email = ''root@x.com'', row_password = ''#pw'',
                         row_is_admin = True, row_created_at = ''2025-06-01''\<rparr>])"
proof -
  let ?req = "sample_request\<lparr>req_body := [(''email'', JStr ''root@x.com''),
                (''password'', JStr ''pw''), (''is_admin'', JBool True)]\<rparr>"
  let ?new = "\<lparr>row_id = ''u2'', row_email = ''root@x.com'', row_password = ''#pw'',
               row_is_admin = True, row_created_at = ''2025-06-01''\<rparr>"
  have h1: "truthy (js_get (req_body ?req) ''email'')"
    by (simp add: sample_request_def js_get_def)
  have h2: "js_get (req_body ?req) ''password'' = JStr ''pw''"
    by (simp add: sample_request_def js_get_def)
  have h3: "''pw'' \<noteq> []"
    by simp
  have h4: "\<forall>r\<in>set sample_store. row_email r \<noteq> js_String (js_get (req_body ?req) ''email'')"
    by (simp add: sample_request_def js_get_def sample_store_def)
  have h5: "db_fault sample_world = None"
    by (simp add: sample_world_def)
  have h6: "env_JWT_SECRET sample_env = Some ''s3cret''"
    by (simp add: sample_env_def)
  have h7: "''s3cret'' \<noteq> []"
    by simp
  have h8: "token_REFRESH_SECRET sample_env = Some ''s3cret''"
    by (simp add: sample_env_def token_REFRESH_SECRET_def token_JWT_SECRET_def or_else_def
        secret_ok_def)
  have h10: "?new = new_row sample_world (js_String (js_get (req_body ?req) ''email''))
                 (bcrypt_hash sample_world ''pw'')
                 (js_get (req_body ?req) ''is_admin'' = JBool True)"
    by (simp add: new_row_def sample_world_def sample_request_def js_get_def)
  show ?thesis
    using register_admin_from_body [OF h1 h2 h3 h4 h5 h6 h7 h8 h7 h10]
    by (simp add: stamped_def row_obj_def sample_world_def minutes15_def days7_def)
qed


section \<open>Deleting a user by id\<close>

lemma param_unbound: "map_of ps name = None \<Longrightarrow> param (req\<lparr>req_params := ps\<rparr>) name = JUndefined"
  by (simp add: param_def)

lemma deleteUser_unbound:
  "map_of ps ''id'' = None \<Longrightarrow>
   deleteUser e w st (req\<lparr>req_params := ps\<rparr>) =
     (case delete_single w st ''id'' JUndefined of
        (Inl msg, st1) \<Rightarrow> (json_error 500 ''Error deleting user'' (BStr msg), st1)
      | (Inr data, st1) \<Rightarrow>
          (\<lparr>res_status = 200,
            res_body = Fields [(''message'', BStr ''User deleted successfully''),
                               (''user'', BObj (row_obj data))],
            res_set_cookie = None\<rparr>, st1))"
  by (simp add: deleteUser_def param_unbound Let_def)

lemma delete_route:
  "u \<noteq> [] \<Longrightarrow>
   protected_routes e w st DELETE [''user'', u] req =
     guarded (requireAdmin (req\<lparr>req_params := [(''userId'', u)]\<rparr>)) (deleteUser e w st) st"
  by (simp add: protected_routes_def user_param_def)

lemma requireAdmin_cases:
  "requireAdmin req = Respond (json_message 403 ''Admin privileges required'')
   \<or> requireAdmin req = Next req"
  by (simp add: requireAdmin_def)

lemma requireAdmin_params:
  "(requireAdmin (req\<lparr>req_params := ps\<rparr>) = Next (req\<lparr>req_params := ps\<rparr>))
     = (requireAdmin req = Next req)"
  by (simp add: requireAdmin_def)

lemma delete_route_result:
  assumes "u \<noteq> []"
  shows "protected_routes e w st DELETE [''user'', u] req =
     (if requireAdmin req = Next req
        then deleteUser e w st (req\<lparr>req_params := []\<rparr>)
      else (json_message 403 ''Admin privileges required'', st))"
proof -
  have d: "deleteUser e w st (req\<lparr>req_params := [(''userId'', u)]\<rparr>)
             = deleteUser e w st (req\<lparr>req_params := []\<rparr>)"
    by (simp add: deleteUser_unbound)
  show ?thesis
    using requireAdmin_cases [of "req\<lparr>req_params := [(''userId'', u)]\<rparr>"]
      requireAdmin_params [of "[(''userId'', u)]" req] d
    by (auto simp add: delete_route [OF assms] guarded_def)
qed

lemma not_public_delete: "\<not> is_public DELETE path"
  by (simp add: is_public_def)

lemma delete_router_result:
  assumes "u \<noteq> []"
  shows "authRouter e w st DELETE [''user'', u] req =
     (case authenticate e (clock w) req of
        Respond r \<Rightarrow> (r, st)
      | Next req1 \<Rightarrow>
          if requireAdmin req1 = Next req1
            then deleteUser e w st (req1\<lparr>req_params := []\<rparr>)
          else (json_message 403 ''Admin privileges required'', st))"
  by (simp add: router_protected [OF not_public_delete] guarded_def delete_route_result [OF assms]
      split: outcome.splits)

lemma deleteUser_store:
  "map_of ps ''id'' = None \<Longrightarrow>
   snd (deleteUser e w st (req\<lparr>req_params := ps\<rparr>)) = snd (delete_single w st ''id'' JUndefined)"
  by (simp add: deleteUser_unbound split: prod.splits sum.splits)

text \<open>
  Claim C10. On \<open>DELETE /auth/user/:userId\<close> the handler reads the path parameter \<open>id\<close>,
  which the route does not bind: the filter of the delete is \<open>undefined\<close> whatever the
  userId of the URL is, the outcome of the request is the same for every userId, and the
  user named in the URL stays in the table (unless its id is the text \<open>undefined\<close>).
\<close>

theorem deleteUser_ignores_userId:
  "u \<noteq> [] \<longrightarrow>
     param (req\<lparr>req_params := [(''userId'', u)]\<rparr>) ''id'' = JUndefined
   \<and> deleteUser e w st (req\<lparr>req_params := [(''userId'', u)]\<rparr>)
       = deleteUser e w st (req\<lparr>req_params := []\<rparr>)
   \<and> snd (deleteUser e w st (req\<lparr>req_params := [(''userId'', u)]\<rparr>))
       = snd (delete_single w st ''id'' JUndefined)
   \<and> (u' \<noteq> [] \<longrightarrow>
        authRouter e w st DELETE [''user'', u] req = authRouter e w st DELETE [''user'', u'] req)
   \<and> (u \<noteq> ''undefined'' \<longrightarrow>
        (\<forall>r\<in>set st. row_id r = u \<longrightarrow>
           r \<in> set (snd (authRouter e w st DELETE [''user'', u] req))))"
proof (rule impI)
  assume u: "u \<noteq> []"
  have a: "param (req\<lparr>req_params := [(''userId'', u)]\<rparr>) ''id'' = JUndefined"
    by (simp add: param_unbound)
  have b: "deleteUser e w st (req\<lparr>req_params := [(''userId'', u)]\<rparr>)
       = deleteUser e w st (req\<lparr>req_params := []\<rparr>)"
    by (simp add: deleteUser_unbound)
  have c: "snd (deleteUser e w st (req\<lparr>req_params := [(''userId'', u)]\<rparr>))
       = snd (delete_single w st ''id'' JUndefined)"
    by (simp add: deleteUser_store)
  have d: "u' \<noteq> [] \<longrightarrow>
        authRouter e w st DELETE [''user'', u] req = authRouter e w st DELETE [''user'', u'] req"
    by (simp add: delete_router_result u)
  have k: "u \<noteq> ''undefined'' \<longrightarrow>
        (\<forall>r\<in>set st. row_id r = u \<longrightarrow>
           r \<in> set (snd (authRouter e w st DELETE [''user'', u] req)))"
  proof (intro impI ballI)
    fix r
    assume n: "u \<noteq> ''undefined''" and r: "r \<in> set st" and i: "row_id r = u"
    from n i have "\<not> eq_filter ''id'' JUndefined r"
      by (simp add: eq_filter_id)
    with r have "r \<in> set (snd (delete_single w st ''id'' JUndefined))"
      by (rule delete_single_keeps)
    then have "\<And>q. r \<in> set (snd (deleteUser e w st (q\<lparr>req_params := []\<rparr>)))"
      by (simp add: deleteUser_store)
    with r show "r \<in> set (snd (authRouter e w st DELETE [''user'', u] req))"
      by (simp add: delete_router_result [OF u] split: outcome.splits)
  qed
  from a b c d k show "param (req\<lparr>req_params := [(''userId'', u)]\<rparr>) ''id'' = JUndefined
   \<and> deleteUser e w st (req\<lparr>req_params := [(''userId'', u)]\<rparr>)
       = deleteUser e w st (req\<lparr>req_params := []\<rparr>)
   \<and> snd (deleteUser e w st (req\<lparr>req_params := [(''userId'', u)]\<rparr>))
       = snd (delete_single w st ''id'' JUndefined)
   \<and> (u' \<noteq> [] \<longrightarrow>
        authRouter e w st DELETE [''user'', u] req = authRouter e w st DELETE [''user'', u'] req)
   \<and> (u \<noteq> ''undefined'' \<longrightarrow>
        (\<forall>r\<in>set st. row_id r = u \<longrightarrow>
           r \<in> set (snd (authRouter e w st DELETE [''user'', u] req))))"
    by (intro conjI)
qed

lemma admin_request_passes:
  "authenticate sample_env (clock sample_world) admin_request
     = Next (admin_request\<lparr>req_user :=
         Some (stamped (identity_obj ''u0'' ''root@x.com'' True) 900 minutes15)\<rparr>)"
proof -
  have "authenticate sample_env 1000
            (sample_request\<lparr>req_authorization :=
                   Some (bearer (signed ''s3cret'' (stamped (identity_obj ''u0'' ''root@x.com'' True) 900 minutes15)))\<rparr>)
           = Next (sample_request\<lparr>req_authorization :=
                          Some (bearer (signed ''s3cret'' (stamped (identity_obj ''u0'' ''root@x.com'' True) 900 minutes15))),
                        req_user := Some (stamped (identity_obj ''u0'' ''root@x.com'' True) 900 minutes15)\<rparr>)"
    by (simp add: authenticate_def bearer_second bearer_not_empty signed_def middleware_JWT_SECRET_def
        sample_env_def jwt_verify_def identity_stamped_fields minutes15_def)
  then show ?thesis by (simp add: admin_request_def sample_world_def)
qed

lemma delete_example:
  "authRouter sample_env sample_world sample_store DELETE [''user'', ''u1''] admin_request
     = (json_error 500 ''Error deleting user''
          (BStr ''JSON object requested, multiple (or no) rows returned''), sample_store)"
proof -
  have "authRouter sample_env sample_world sample_store DELETE [''user'', ''u1''] admin_request
     = deleteUser sample_env sample_world sample_store
         (admin_request\<lparr>req_user :=
            Some (stamped (identity_obj ''u0'' ''root@x.com'' True) 900 minutes15),
            req_params := []\<rparr>)"
    by (simp add: delete_router_result admin_request_passes requireAdmin_def
        identity_stamped_fields)
  also have "\<dots> = (json_error 500 ''Error deleting user''
          (BStr ''JSON object requested, multiple (or no) rows returned''), sample_store)"
    by (simp add: deleteUser_unbound delete_single_def sample_world_def sample_store_def
        eq_filter_id single_def)
  finally show ?thesis .
qed

theorem deleteUser_ignores_userId_witness:
  "''u1'' \<noteq> [] \<and> ''u9'' \<noteq> [] \<and> ''u1'' \<noteq> ''undefined''
   \<and> authRouter sample_env sample_world sample_store DELETE [''user'', ''u1''] admin_request
       = authRouter sample_env sample_world sample_store DELETE [''user'', ''u9''] admin_request
   \<and> \<lparr>row_id = ''u1'', row_email = ''a@x.com'', row_password = ''#secret'', row_is_admin = False,
       row_created_at = ''2025-01-01''\<rparr>
       \<in> set (snd (authRouter sample_env sample_world sample_store DELETE [''user'', ''u1'']
                    admin_request))
   \<and> authRouter sample_env sample_world sample_store DELETE [''user'', ''u1''] admin_request
       = (json_error 500 ''Error deleting user''
            (BStr ''JSON object requested, multiple (or no) rows returned''), sample_store)"
proof -
  have n: "''u1'' \<noteq> []" "''u9'' \<noteq> []" "''u1'' \<noteq> ''undefined''"
    by simp_all
  note t = deleteUser_ignores_userId [of "''u1''" admin_request sample_env sample_world
      sample_store "''u9''"]
  from t n have a: "authRouter sample_env sample_world sample_store DELETE [''user'', ''u1'']
        admin_request
       = authRouter sample_env sample_world sample_store DELETE [''user'', ''u9''] admin_request"
    by blast
  from t n have "\<forall>r\<in>set sample_store. row_id r = ''u1'' \<longrightarrow>
      r \<in> set (snd (authRouter sample_env sample_world sample_store DELETE [''user'', ''u1'']
                    admin_request))"
    by blast
  then have b: "\<lparr>row_id = ''u1'', row_email = ''a@x.com'', row_password = ''#secret'',
       row_is_admin = False, row_created_at = ''2025-01-01''\<rparr>
       \<in> set (snd (authRouter sample_env sample_world sample_store DELETE [''user'', ''u1'']
                    admin_request))"
    by (simp add: sample_store_def)
  from n a b delete_example show ?thesis by blast
qed


section \<open>The refresh endpoint\<close>

lemma cookie_refresh:
  "cookie_get (cookie_parse (plain ''refreshToken='' @ [Tok j])) ''refreshToken'' = Some [Tok j]"
  by (simp add: cookie_get_def cookie_parse_def cookie_pair_def plain_def trim_def unquote_def
      is_space_def List.map_filter_def)

lemma refresh_success:
  assumes "req_cookie req = Some (plain ''refreshToken='' @ signed rk (stamped [(''id'', JStr i)] t0 days7))"
    and "token_REFRESH_SECRET e = Some rk" and "rk \<noteq> []" and "clock w < t0 + days7"
    and "db_fault w = None" and "filter (\<lambda>r. row_id r = i) st = [usr]"
    and "env_JWT_SECRET e = Some k" and "k \<noteq> []"
  shows "refreshToken e w st req =
           (\<lparr>res_status = 200,
             res_body = Fields [(''accessToken'',
                                 BWire (signed k (stamped (row_obj usr) (clock w) minutes15)))],
             res_set_cookie = None\<rparr>, st)"
proof -
  let ?c = "stamped [(''id'', JStr i)] t0 days7"
  have ck: "cookie_get (cookie_parse (plain ''refreshToken='' @ signed rk ?c)) ''refreshToken''
              = Some (signed rk ?c)"
    by (simp add: signed_def cookie_refresh)
  have ne: "signed rk ?c \<noteq> []"
    by (simp add: signed_def)
  have v: "verifyRefreshToken e (clock w) (signed rk ?c) = Inr ?c"
    using assms(2,3,4)
    by (simp add: verifyRefreshToken_def verify_own [where x = "t0 + days7"] id_stamped_fields)
  have f: "filter (eq_filter ''id'' (js_get ?c ''id'')) st = [usr]"
    using assms(6) by (simp add: id_stamped_fields eq_filter_id [abs_def])
  have sel: "select_single w st ''id'' (js_get ?c ''id'') = Inr usr"
    using assms(5) f by (rule select_single_one)
  have at: "generateAccessToken e (clock w) (row_obj usr)
              = Inr (signed k (stamped (row_obj usr) (clock w) minutes15))"
    using assms(7,8) by (simp add: generateAccessToken_def token_JWT_SECRET_def sign_row)
  show ?thesis
    unfolding refreshToken_def Let_def using assms(1) ck ne v sel at by simp
qed

lemma refresh_rejects_unverified:
  assumes "req_cookie req = Some (plain ''refreshToken='' @ [Tok j])"
    and "verifyRefreshToken e (clock w) [Tok j] = Inl err"
  shows "refreshToken e w st req = (json_error 403 ''Invalid refresh token'' (BErr err), st)"
  unfolding refreshToken_def Let_def using assms cookie_refresh [of j] by simp

text \<open>
  Behind the authentication gate the handler is reached only by a request that also
  carries a valid access token; such a request, with a valid refresh cookie for an identity
  the table still holds, is answered 200 with a fresh access token and no cookie.
\<close>

lemma refresh_with_bearer:
  assumes "req_authorization req = Some (bearer [Tok j])"
    and "jwt_verify [Tok j] (env_JWT_SECRET e) (clock w) = Inr claims"
    and "req_cookie req = Some (plain ''refreshToken='' @ signed rk (stamped [(''id'', JStr i)] t0 days7))"
    and "token_REFRESH_SECRET e = Some rk" and "rk \<noteq> []" and "clock w < t0 + days7"
    and "db_fault w = None" and "filter (\<lambda>r. row_id r = i) st = [usr]"
    and "env_JWT_SECRET e = Some k" and "k \<noteq> []"
  shows "authRouter e w st GET [''refresh-token''] req =
           (\<lparr>res_status = 200,
             res_body = Fields [(''accessToken'',
                                 BWire (signed k (stamped (row_obj usr) (clock w) minutes15)))],
             res_set_cookie = None\<rparr>, st)
       \<and> js_get (stamped (row_obj usr) (clock w) minutes15) ''id'' = JStr i
       \<and> js_get (stamped (row_obj usr) (clock w) minutes15) ''email'' = JStr (row_email usr)
       \<and> js_get (stamped (row_obj usr) (clock w) minutes15) ''is_admin'' = JBool (row_is_admin usr)"
proof -
  let ?req1 = "req\<lparr>req_user := Some claims\<rparr>"
  have p: "\<not> is_public GET [''refresh-token'']"
    by (simp add: is_public_def)
  have g: "authRouter e w st GET [''refresh-token''] req
             = protected_routes e w st GET [''refresh-token''] ?req1"
    using p assms(1) bearer_token_second _ assms(2) by (rule gate_valid) simp
  have r: "protected_routes e w st GET [''refresh-token''] ?req1
             = refreshToken e w st (?req1\<lparr>req_params := []\<rparr>)"
    by (simp add: protected_routes_def user_param_def)
  have c: "req_cookie (?req1\<lparr>req_params := []\<rparr>)
             = Some (plain ''refreshToken='' @ signed rk (stamped [(''id'', JStr i)] t0 days7))"
    using assms(3) by simp
  have u: "usr \<in> set (filter (\<lambda>r. row_id r = i) st)"
    using assms(8) by simp
  then have i: "row_id usr = i"
    by simp
  from g r refresh_success [OF c assms(4-10)] i show ?thesis
    by (simp add: row_stamped_fields)
qed

text \<open>
  Claim C3 fails on the code. For a request that carries a valid, unexpired refresh cookie
  and no other credential the handler alone answers 200 with a fresh access token and sets
  no cookie, as its documentation says, but the route is registered behind the
  authentication gate and answers 401. With an expired access token next to the valid
  cookie the route answers 403, so a session whose access token has run out cannot be
  refreshed. The handler does verify the refresh token: a cookie signed under another key
  and an expired one are both answered 403.
\<close>

theorem refresh_cookie_only_rejected:
  "refreshToken sample_env sample_world sample_store
     (sample_request\<lparr>req_cookie := Some (plain ''refreshToken=''
        @ signed ''s3cret'' (stamped [(''id'', JStr ''u1'')] 0 days7))\<rparr>)
     = (\<lparr>res_status = 200,
         res_body = Fields [(''accessToken'',
            BWire (signed ''s3cret'' (stamped (row_obj sample_user) 1000 minutes15)))],
         res_set_cookie = None\<rparr>, sample_store)
   \<and> authRouter sample_env sample_world sample_store GET [''refresh-token'']
     (sample_request\<lparr>req_cookie := Some (plain ''refreshToken=''
        @ signed ''s3cret'' (stamped [(''id'', JStr ''u1'')] 0 days7))\<rparr>)
     = (\<lparr>res_status = 401, res_body = Fields [(''message'', BStr ''Unauthorized'')],
         res_set_cookie = None\<rparr>, sample_store)
   \<and> authRouter sample_env sample_world sample_store GET [''refresh-token'']
     (sample_request\<lparr>req_authorization := Some (bearer
          (signed ''s3cret'' (stamped (identity_obj ''u1'' ''a@x.com'' False) 0 minutes15))),
        req_cookie := Some (plain ''refreshToken=''
          @ signed ''s3cret'' (stamped [(''id'', JStr ''u1'')] 0 days7))\<rparr>)
     = (\<lparr>res_status = 403, res_body = Fields [(''message'', BStr ''Invalid token'')],
         res_set_cookie = None\<rparr>, sample_store)
   \<and> refreshToken sample_env sample_world sample_store
     (sample_request\<lparr>req_cookie := Some (plain ''refreshToken=''
        @ signed ''forged'' (stamped [(''id'', JStr ''u1'')] 0 days7))\<rparr>)
     = (\<lparr>res_status = 403,
         res_body = Fields [(''message'', BStr ''Invalid refresh token''),
                            (''error'', BErr InvalidSignature)],
         res_set_cookie = None\<rparr>, sample_store)
   \<and> refreshToken sample_env sample_world sample_store
     (sample_request\<lparr>req_cookie := Some (plain ''refreshToken=''
        @ signed ''s3cret'' (stamped [(''id'', JStr ''u1'')] (- 604800) days7))\<rparr>)
     = (\<lparr>res_status = 403,
         res_body = Fields [(''message'', BStr ''Invalid refresh token''),
                            (''error'', BErr JwtExpired)],
         res_set_cookie = None\<rparr>, sample_store)"
proof -
  let ?ck = "Some (plain ''refreshToken=''
        @ signed ''s3cret'' (stamped [(''id'', JStr ''u1'')] 0 days7))"
  let ?req = "sample_request\<lparr>req_cookie := ?ck\<rparr>"
  have h1: "req_cookie ?req = ?ck"
    by simp
  have h2: "token_REFRESH_SECRET sample_env = Some ''s3cret''"
    by (simp add: sample_env_def token_REFRESH_SECRET_def token_JWT_SECRET_def or_else_def
        secret_ok_def)
  have h3: "''s3cret'' \<noteq> []"
    by simp
  have h4: "clock sample_world < 0 + days7"
    by (simp add: sample_world_def days7_def)
  have h5: "db_fault sample_world = None"
    by (simp add: sample_world_def)
  have h6: "filter (\<lambda>r. row_id r = ''u1'') sample_store = [sample_user]"
    by (simp add: sample_store_def sample_user_def)
  have h7: "env_JWT_SECRET sample_env = Some ''s3cret''"
    by (simp add: sample_env_def)
  have a: "refreshToken sample_env sample_world sample_store ?req
     = (\<lparr>res_status = 200,
         res_body = Fields [(''accessToken'',
            BWire (signed ''s3cret'' (stamped (row_obj sample_user) 1000 minutes15)))],
         res_set_cookie = None\<rparr>, sample_store)"
    using refresh_success [OF h1 h2 h3 h4 h5 h6 h7 h3] by (simp add: sample_world_def)
  have p: "\<not> is_public GET [''refresh-token'']"
    by (simp add: is_public_def)
  have "req_authorization ?req = None"
    by (simp add: sample_request_def)
  with p have b: "authRouter sample_env sample_world sample_store GET [''refresh-token''] ?req
     = (json_message 401 ''Unauthorized'', sample_store)"
    by (rule gate_absent)
  let ?c = "stamped (identity_obj ''u1'' ''a@x.com'' False) 0 minutes15"
  let ?req2 = "sample_request\<lparr>req_authorization := Some (bearer (signed ''s3cret'' ?c)),
        req_cookie := ?ck\<rparr>"
  have e1: "req_authorization ?req2 = Some (bearer [Tok (Jwt ?c (Mac ''s3cret'' ?c))])"
    by (simp add: signed_def)
  have e2: "jwt_verify [Tok (Jwt ?c (Mac ''s3cret'' ?c))] (env_JWT_SECRET sample_env)
              (clock sample_world) = Inl JwtExpired"
    by (simp add: jwt_verify_def sample_env_def sample_world_def identity_stamped_fields
        minutes15_def)
  have c: "authRouter sample_env sample_world sample_store GET [''refresh-token''] ?req2
     = (json_message 403 ''Invalid token'', sample_store)"
    using p e1 e2 by (rule gate_rejects_token)
  let ?f = "stamped [(''id'', JStr ''u1'')] 0 days7"
  let ?req3 = "sample_request\<lparr>req_cookie := Some (plain ''refreshToken='' @ signed ''forged'' ?f)\<rparr>"
  have f1: "req_cookie ?req3 = Some (plain ''refreshToken='' @ [Tok (Jwt ?f (Mac ''forged'' ?f))])"
    by (simp add: signed_def)
  have f2: "verifyRefreshToken sample_env (clock sample_world) [Tok (Jwt ?f (Mac ''forged'' ?f))]
              = Inl InvalidSignature"
    by (simp add: verifyRefreshToken_def h2 jwt_verify_def)
  have d: "refreshToken sample_env sample_world sample_store ?req3
     = (json_error 403 ''Invalid refresh token'' (BErr InvalidSignature), sample_store)"
    using f1 f2 by (rule refresh_rejects_unverified)
  let ?x = "stamped [(''id'', JStr ''u1'')] (- 604800) days7"
  let ?req4 = "sample_request\<lparr>req_cookie := Some (plain ''refreshToken='' @ signed ''s3cret'' ?x)\<rparr>"
  have x1: "req_cookie ?req4 = Some (plain ''refreshToken='' @ [Tok (Jwt ?x (Mac ''s3cret'' ?x))])"
    by (simp add: signed_def)
  have x2: "verifyRefreshToken sample_env (clock sample_world) [Tok (Jwt ?x (Mac ''s3cret'' ?x))]
              = Inl JwtExpired"
    by (simp add: verifyRefreshToken_def h2 jwt_verify_def id_stamped_fields days7_def
        sample_world_def)
  have g: "refreshToken sample_env sample_world sample_store ?req4
     = (json_error 403 ''Invalid refresh token'' (BErr JwtExpired), sample_store)"
    using x1 x2 by (rule refresh_rejects_unverified)
  from a b c d g show ?thesis
    by (simp add: json_message_def json_error_def)
qed

theorem refresh_cookie_only_rejected_witness:
  "res_status (fst (refreshToken sample_env sample_world sample_store
     (sample_request\<lparr>req_cookie := Some (plain ''refreshToken=''
        @ signed ''s3cret'' (stamped [(''id'', JStr ''u1'')] 0 days7))\<rparr>))) = 200
   \<and> res_status (fst (authRouter sample_env sample_world sample_store GET [''refresh-token'']
     (sample_request\<lparr>req_cookie := Some (plain ''refreshToken=''
        @ signed ''s3cret'' (stamped [(''id'', JStr ''u1'')] 0 days7))\<rparr>))) = 401"
  using refresh_cookie_only_rejected by simp

section \<open>What an access token embeds\<close>

text \<open>
  Claim C1 does not hold on registration and on refresh: there the whole row of the user
  is signed, so the access token embeds the password hash and the creation time next to
  id, email and is_admin (login signs exactly the three fields). A registration on the
  empty table, and a refresh for the user of the sample table:
\<close>

theorem access_token_embeds_row:
  "register sample_env sample_world []
     (sample_request\<lparr>req_body := credentials ''b@x.com'' ''p''\<rparr>)
     = (\<lparr>res_status = 201,
         res_body = Fields [(''message'', BStr ''User created successfully''),
                            (''accessToken'',
                             BWire (signed ''s3cret''
                               [(''id'', JStr ''u2''), (''email'', JStr ''b@x.com''),
                                (''password'', JStr ''#p''), (''is_admin'', JBool False),
                                (''created_at'', JStr ''2025-06-01''), (''iat'', JNum 1000),
                                (''exp'', JNum 1900)]))],
         res_set_cookie = Some (refresh_cookie sample_env
            (signed ''s3cret'' [(''id'', JStr ''u2''), (''iat'', JNum 1000),
                               (''exp'', JNum 605800)]))\<rparr>,
        [\<lparr>row_id = ''u2'', row_email = ''b@x.com'', row_password = ''#p'',
          row_is_admin = False, row_created_at = ''2025-06-01''\<rparr>])
   \<and> refreshToken sample_env sample_world sample_store
     (sample_request\<lparr>req_cookie := Some (plain ''refreshToken=''
        @ signed ''s3cret'' (stamped [(''id'', JStr ''u1'')] 0 days7))\<rparr>)
     = (\<lparr>res_status = 200,
         res_body = Fields [(''accessToken'',
            BWire (signed ''s3cret''
                     [(''id'', JStr ''u1''), (''email'', JStr ''a@x.com''),
                      (''password'', JStr ''#secret''), (''is_admin'', JBool False),
                      (''created_at'', JStr ''2025-01-01''), (''iat'', JNum 1000),
                      (''exp'', JNum 1900)]))],
         res_set_cookie = None\<rparr>, sample_store)"
proof -
  let ?req = "sample_request\<lparr>req_body := credentials ''b@x.com'' ''p''\<rparr>"
  let ?new = "\<lparr>row_id = ''u2'', row_email = ''b@x.com'', row_password = ''#p'',
               row_is_admin = False, row_created_at = ''2025-06-01''\<rparr>"
  have h1: "truthy (js_get (req_body ?req) ''email'')"
    by (simp add: sample_request_def credentials_def js_get_def)
  have h2: "js_get (req_body ?req) ''password'' = JStr ''p''"
    by (simp add: sample_request_def credentials_def js_get_def)
  have h3: "''p'' \<noteq> []"
    by simp
  have h4: "\<forall>r\<in>set []. row_email r \<noteq> js_String (js_get (req_body ?req) ''email'')"
    by simp
  have h5: "db_fault sample_world = None"
    by (simp add: sample_world_def)
  have h6: "env_JWT_SECRET sample_env = Some ''s3cret''"
    by (simp add: sample_env_def)
  have h7: "''s3cret'' \<noteq> []"
    by simp
  have h8: "token_REFRESH_SECRET sample_env = Some ''s3cret''"
    by (simp add: sample_env_def token_REFRESH_SECRET_def token_JWT_SECRET_def or_else_def
        secret_ok_def)
  have h10: "?new = new_row sample_world (js_String (js_get (req_body ?req) ''email''))
                 (bcrypt_hash sample_world ''p'')
                 (js_get (req_body ?req) ''is_admin'' = JBool True)"
    by (simp add: new_row_def sample_world_def sample_request_def credentials_def js_get_def)
  have a: "register sample_env sample_world [] ?req
     = (\<lparr>res_status = 201,
         res_body = Fields [(''message'', BStr ''User created successfully''),
                            (''accessToken'',
                             BWire (signed ''s3cret''
                               [(''id'', JStr ''u2''), (''email'', JStr ''b@x.com''),
                                (''password'', JStr ''#p''), (''is_admin'', JBool False),
                                (''created_at'', JStr ''2025-06-01''), (''iat'', JNum 1000),
                                (''exp'', JNum 1900)]))],
         res_set_cookie = Some (refresh_cookie sample_env
            (signed ''s3cret'' [(''id'', JStr ''u2''), (''iat'', JNum 1000),
                               (''exp'', JNum 605800)]))\<rparr>,
        [?new])"
    using register_success [OF h1 h2 h3 h4 h5 h6 h7 h8 h7 h10]
    by (simp add: stamped_def row_obj_def sample_world_def minutes15_def days7_def)
  let ?rq = "sample_request\<lparr>req_cookie := Some (plain ''refreshToken=''
        @ signed ''s3cret'' (stamped [(''id'', JStr ''u1'')] 0 days7))\<rparr>"
  have k1: "req_cookie ?rq = Some (plain ''refreshToken=''
        @ signed ''s3cret'' (stamped [(''id'', JStr ''u1'')] 0 days7))"
    by simp
  have k4: "clock sample_world < 0 + days7"
    by (simp add: sample_world_def days7_def)
  have k6: "filter (\<lambda>r. row_id r = ''u1'') sample_store = [sample_user]"
    by (simp add: sample_store_def sample_user_def)
  have b: "refreshToken sample_env sample_world sample_store ?rq
     = (\<lparr>res_status = 200,
         res_body = Fields [(''accessToken'',
            BWire (signed ''s3cret''
                     [(''id'', JStr ''u1''), (''email'', JStr ''a@x.com''),
                      (''password'', JStr ''#secret''), (''is_admin'', JBool False),
                      (''created_at'', JStr ''2025-01-01''), (''iat'', JNum 1000),
                      (''exp'', JNum 1900)]))],
         res_set_cookie = None\<rparr>, sample_store)"
    using refresh_success [OF k1 h8 h7 k4 h5 k6 h6 h7]
    by (simp add: stamped_def row_obj_def sample_world_def sample_user_def minutes15_def)
  from a b show ?thesis by simp
qed

theorem access_token_embeds_row_witness:
  "res_body (fst (register sample_env sample_world []
     (sample_request\<lparr>req_body := credentials ''b@x.com'' ''p''\<rparr>)))
     = Fields [(''message'', BStr ''User created successfully''),
               (''accessToken'',
                BWire (signed ''s3cret''
                  [(''id'', JStr ''u2''), (''email'', JStr ''b@x.com''),
                   (''password'', JStr ''#p''), (''is_admin'', JBool False),
                   (''created_at'', JStr ''2025-06-01''), (''iat'', JNum 1000),
                   (''exp'', JNum 1900)]))]
   \<and> js_get [(''id'', JStr ''u2''), (''email'', JStr ''b@x.com''),
              (''password'', JStr ''#p''), (''is_admin'', JBool False),
              (''created_at'', JStr ''2025-06-01''), (''iat'', JNum 1000),
              (''exp'', JNum 1900)] ''password'' = JStr ''#p''"
  using access_token_embeds_row by (simp add: js_get_def)

end
